theory Spec2Isabelle
  imports Complex_Main "HOL-Library.AList"
begin

section \<open>JavaScript values\<close>

text \<open>
  A string is the list of the bytes of its UTF-8 encoding, so an ASCII character is one
  \<open>char\<close>. \<open>NaN\<close> and \<open>undefined\<close> are \<open>None\<close>. A string is truthy when it is not
  empty.
\<close>

text \<open>
  The characters that \<open>String.prototype.trim\<close> and \<open>Number.parseInt\<close> take for white
  space, in UTF-8: TAB, LF, VT, FF, CR, SP, U+00A0, U+1680, U+2000 to U+200A, U+2028,
  U+2029, U+202F, U+205F, U+3000 and U+FEFF.
\<close>

definition whiteSpace :: "string list" where
  "whiteSpace =
     [[CHR 0x09], [CHR 0x0A], [CHR 0x0B], [CHR 0x0C], [CHR 0x0D], [CHR 0x20],
      [CHR 0xC2, CHR 0xA0],
      [CHR 0xE1, CHR 0x9A, CHR 0x80],
      [CHR 0xE2, CHR 0x80, CHR 0x80], [CHR 0xE2, CHR 0x80, CHR 0x81],
      [CHR 0xE2, CHR 0x80, CHR 0x82], [CHR 0xE2, CHR 0x80, CHR 0x83],
      [CHR 0xE2, CHR 0x80, CHR 0x84], [CHR 0xE2, CHR 0x80, CHR 0x85],
      [CHR 0xE2, CHR 0x80, CHR 0x86], [CHR 0xE2, CHR 0x80, CHR 0x87],
      [CHR 0xE2, CHR 0x80, CHR 0x88], [CHR 0xE2, CHR 0x80, CHR 0x89],
      [CHR 0xE2, CHR 0x80, CHR 0x8A],
      [CHR 0xE2, CHR 0x80, CHR 0xA8], [CHR 0xE2, CHR 0x80, CHR 0xA9],
      [CHR 0xE2, CHR 0x80, CHR 0xAF],
      [CHR 0xE2, CHR 0x81, CHR 0x9F],
      [CHR 0xE3, CHR 0x80, CHR 0x80],
      [CHR 0xEF, CHR 0xBB, CHR 0xBF]]"

text \<open>Taking one of the given sequences off the front of a string for as long as one is there.\<close>

function stripLeading :: "string list \<Rightarrow> string \<Rightarrow> string" where
  "stripLeading seqs s =
     (case find (\<lambda>q. q \<noteq> [] \<and> take (length q) s = q) seqs of
        None \<Rightarrow> s
      | Some q \<Rightarrow> stripLeading seqs (drop (length q) s))"
  by pat_completeness auto
termination
proof (relation "measure (\<lambda>(seqs, s). length s)")
  show "wf (measure (\<lambda>(seqs, s). length s))"
    by simp
next
  fix seqs :: "string list" and s q :: string
  assume "find (\<lambda>q. q \<noteq> [] \<and> take (length q) s = q) seqs = Some q"
  then have "q \<noteq> []" and "take (length q) s = q"
    by (auto simp: find_Some_iff)
  then have "s \<noteq> []"
    by auto
  with \<open>q \<noteq> []\<close> show "((seqs, drop (length q) s), (seqs, s)) \<in> measure (\<lambda>(seqs, s). length s)"
    by simp
qed

declare stripLeading.simps [simp del]

text \<open>\<open>String.prototype.trim\<close>.\<close>

definition trim :: "string \<Rightarrow> string" where
  "trim s =
     rev (stripLeading (map rev whiteSpace) (rev (stripLeading whiteSpace s)))"

definition digitValue :: "char \<Rightarrow> nat option" where
  "digitValue c = map_of (zip ''0123456789'' [0, 1, 2, 3, 4, 5, 6, 7, 8, 9]) c"

definition digitsToNat :: "string \<Rightarrow> nat" where
  "digitsToNat ds =
     foldl (\<lambda>a c. 10 * a + (case digitValue c of Some d \<Rightarrow> d | None \<Rightarrow> 0)) 0 ds"

text \<open>
  A JavaScript number that holds an integer. Below \<open>2 ^ 53\<close> in magnitude a double holds
  every integer: \<open>Exact i\<close> is that double. \<open>Rounded v\<close> is the number that the runtime
  makes of a decimal digit run whose value \<open>v\<close> is \<open>2 ^ 53\<close> or more in magnitude: a
  double near \<open>v\<close>, or an infinity. Which one, and how it prints, is the runtime's.
\<close>

datatype number = Exact int | Rounded int

definition toNumber :: "int \<Rightarrow> number" where
  "toNumber v = (if \<bar>v\<bar> < 2 ^ 53 then Exact v else Rounded v)"

text \<open>
  \<open>Number.parseInt(s, 10)\<close>: leading white space is skipped, one sign is read, then the
  longest run of decimal digits; no digit at all gives \<open>NaN\<close>.
\<close>

definition parseInt :: "string \<Rightarrow> number option" where
  "parseInt s =
     (let t = stripLeading whiteSpace s;
          neg = (case t of [] \<Rightarrow> False | c # _ \<Rightarrow> c = CHR ''-'');
          u = (case t of [] \<Rightarrow> []
               | c # r \<Rightarrow> if c = CHR ''-'' \<or> c = CHR ''+'' then r else t);
          ds = takeWhile (\<lambda>c. digitValue c \<noteq> None) u
      in if ds = [] then None
         else Some (toNumber (if neg then - int (digitsToNat ds) else int (digitsToNat ds))))"

fun natToString :: "nat \<Rightarrow> string" where
  "natToString n =
     (if n < 10 then [''0123456789'' ! n]
      else natToString (n div 10) @ [''0123456789'' ! (n mod 10)])"

declare natToString.simps [simp del]

definition intToString :: "int \<Rightarrow> string" where
  "intToString i =
     (if i < 0 then CHR ''-'' # natToString (nat (- i)) else natToString (nat i))"

text \<open>
  A JSON document: what the text of a file denotes. A number is the rational that its
  literal denotes, before \<open>JSON.parse\<close> rounds it to a double. An object keeps its own
  properties in an association list, each name once, in the order in which JavaScript
  enumerates and prints them; \<open>map_of\<close> reads a property.
\<close>

datatype json =
    JNull
  | JBool bool
  | JNum rat
  | JStr string
  | JArr "json list"
  | JObj "(string \<times> json) list"

datatype error = IoError | SyntaxError | TypeError | RangeError | ConfigError

section \<open>The process around the manager\<close>

text \<open>
  \<open>now\<close> is what \<open>new Date().toISOString()\<close> returns, \<open>getEnvFilePath\<close> is
  \<open>config.ts\<close>'s function of that name (a \<open>join\<close> of the server configuration directory
  and \<open><name>.env\<close>). \<open>bigToString v\<close> is what a template literal prints for the
  number \<open>Rounded v\<close>, and \<open>reprinted v\<close> is what \<open>JSON.stringify\<close> writes for the
  double that \<open>JSON.parse\<close> made of a literal of value \<open>v\<close>, where \<open>v\<close> is no integer
  below \<open>2 ^ 53\<close> in magnitude: the literal of that double, or \<open>null\<close> for an infinity.
\<close>

record runtime =
  now :: string
  getEnvFilePath :: "string \<Rightarrow> string"
  bigToString :: "int \<Rightarrow> string"
  reprinted :: "rat \<Rightarrow> json"

text \<open>What a template literal prints for a number.\<close>

definition numberToString :: "'a runtime_scheme \<Rightarrow> number \<Rightarrow> string" where
  "numberToString rt n =
     (case n of Exact i \<Rightarrow> intToString i | Rounded v \<Rightarrow> bigToString rt v)"

text \<open>A number that is an integer below \<open>2 ^ 53\<close> in magnitude: a double holds it as it is.\<close>

definition safeInteger :: "rat \<Rightarrow> bool" where
  "safeInteger v = (v = of_int \<lfloor>v\<rfloor> \<and> \<bar>v\<bar> < 2 ^ 53)"

text \<open>
  What \<open>JSON.stringify\<close> prints for a value that \<open>JSON.parse\<close> read: the value itself,
  but for the numbers, which print as the doubles they were rounded to.
\<close>

fun printed :: "'a runtime_scheme \<Rightarrow> json \<Rightarrow> json" where
  "printed rt (JNum v) = (if safeInteger v then JNum v else reprinted rt v)"
| "printed rt (JArr xs) = JArr (map (printed rt) xs)"
| "printed rt (JObj ps) = JObj (map (\<lambda>p. (fst p, printed rt (snd p))) ps)"
| "printed rt JNull = JNull"
| "printed rt (JBool b) = JBool b"
| "printed rt (JStr s) = JStr s"

section \<open>Properties of JSON values\<close>

text \<open>
  Truthiness. A number is falsy when its double is zero: the literal is at most
  \<open>2 ^ - 1075\<close> in magnitude, half of the least positive double.
\<close>

fun truthy :: "json \<Rightarrow> bool" where
  "truthy JNull = False"
| "truthy (JBool b) = b"
| "truthy (JNum v) = (1 < \<bar>v\<bar> * 2 ^ 1075)"
| "truthy (JStr s) = (s \<noteq> [])"
| "truthy (JArr xs) = True"
| "truthy (JObj ps) = True"

definition arrayIndex :: "string \<Rightarrow> nat option" where
  "arrayIndex k =
     (if k \<noteq> [] \<and> list_all (\<lambda>c. digitValue c \<noteq> None) k
         \<and> (k = ''0'' \<or> take 1 k \<noteq> ''0'') \<and> digitsToNat k < 4294967295
      then Some (digitsToNat k) else None)"

text \<open>
  The UTF-16 code units of a string, each in its own bytes: a character of one, two or
  three bytes is one code unit; a character of four bytes is two surrogates, each kept in
  the three bytes of its generalised UTF-8 form.
\<close>

definition surrogates :: "char \<Rightarrow> string \<Rightarrow> string list" where
  "surrogates c rest =
     (case rest of
        [b1, b2, b3] \<Rightarrow>
          (let cp = (of_char c mod 8) * 262144 + (of_char b1 mod 64) * 4096
                      + (of_char b2 mod 64) * 64 + (of_char b3 mod 64 :: nat);
               v = cp - 65536;
               hi = 55296 + v div 1024;
               lo = 56320 + v mod 1024
           in [[CHR 0xED, char_of (128 + (hi div 64) mod 64), char_of (128 + hi mod 64)],
               [CHR 0xED, char_of (128 + (lo div 64) mod 64), char_of (128 + lo mod 64)]])
      | _ \<Rightarrow> [c # rest])"

function codeUnits :: "string \<Rightarrow> string list" where
  "codeUnits [] = []"
| "codeUnits (c # cs) =
     (if (of_char c :: nat) < 192 then [c] # codeUnits cs
      else if (of_char c :: nat) < 224 then (c # take 1 cs) # codeUnits (drop 1 cs)
      else if (of_char c :: nat) < 240 then (c # take 2 cs) # codeUnits (drop 2 cs)
      else surrogates c (take 3 cs) @ codeUnits (drop 3 cs))"
  by pat_completeness auto
termination
  by (relation "measure length") auto

declare codeUnits.simps [simp del]

text \<open>
  Reading an own property of a JSON value; \<open>null\<close> throws. The names that the code
  reads by (\<open>mcps\<close>, \<open>name\<close>, \<open>endpoint\<close>, \<open>mcpServers\<close>, the name of a server) are
  taken for names that no prototype has: what \<open>Object.prototype\<close>, \<open>Array.prototype\<close>
  and \<open>String.prototype\<close> hold, and \<open>length\<close>, are not read here. An array index is a
  canonical decimal below \<open>2 ^ 32 - 1\<close>.
\<close>

fun getProp :: "json \<Rightarrow> string \<Rightarrow> error + json option" where
  "getProp JNull k = Inl TypeError"
| "getProp (JObj ps) k = Inr (map_of ps k)"
| "getProp (JArr xs) k =
     Inr (case arrayIndex k of
            Some i \<Rightarrow> if i < length xs then Some (xs ! i) else None
          | None \<Rightarrow> None)"
| "getProp (JStr s) k =
     Inr (case arrayIndex k of
            Some i \<Rightarrow>
              if i < length (codeUnits s) then Some (JStr (codeUnits s ! i)) else None
          | None \<Rightarrow> None)"
| "getProp (JBool b) k = Inr None"
| "getProp (JNum n) k = Inr None"

text \<open>
  A new property of an object goes to the end, but for a name that is an array index:
  those names are enumerated before the others, in ascending order.
\<close>

fun insertIndexed ::
  "nat \<Rightarrow> string \<Rightarrow> json \<Rightarrow> (string \<times> json) list \<Rightarrow> (string \<times> json) list" where
  "insertIndexed i k v [] = [(k, v)]"
| "insertIndexed i k v (p # ps) =
     (if (case arrayIndex (fst p) of Some j \<Rightarrow> j < i | None \<Rightarrow> False)
      then p # insertIndexed i k v ps
      else (k, v) # p # ps)"

definition putProp :: "string \<Rightarrow> json \<Rightarrow> (string \<times> json) list \<Rightarrow> (string \<times> json) list" where
  "putProp k v ps =
     (case arrayIndex k of
        Some i \<Rightarrow> if map_of ps k = None then insertIndexed i k v ps else AList.update k v ps
      | None \<Rightarrow> AList.update k v ps)"

text \<open>
  Assigning an object \<open>v\<close> to a property, in a module (strict mode), given by what
  \<open>JSON.stringify\<close> prints of the target afterwards. On an object the name \<open>__proto__\<close>,
  unless it is an own property, sets the prototype and adds nothing. On an array an index
  past the end leaves holes that print as \<open>null\<close> (how long a text the runtime can print
  is not modelled), \<open>length\<close> throws a \<open>RangeError\<close> (an object is no length), and what
  goes under any other name is not printed. A primitive value throws a \<open>TypeError\<close>.
\<close>

fun setProp :: "json \<Rightarrow> string \<Rightarrow> json \<Rightarrow> error + json" where
  "setProp (JObj ps) k v =
     (if k = ''__proto__'' \<and> map_of ps k = None then Inr (JObj ps)
      else Inr (JObj (putProp k v ps)))"
| "setProp (JArr xs) k v =
     (if k = ''length'' then Inl RangeError
      else Inr (case arrayIndex k of
                  Some i \<Rightarrow>
                    JArr (if i < length xs then xs[i := v]
                          else xs @ replicate (i - length xs) JNull @ [v])
                | None \<Rightarrow> JArr xs))"
| "setProp JNull k v = Inl TypeError"
| "setProp (JBool b) k v = Inl TypeError"
| "setProp (JNum n) k v = Inl TypeError"
| "setProp (JStr s) k v = Inl TypeError"

text \<open>
  A value all of whose numbers are integers that a double holds: \<open>JSON.stringify\<close>
  prints it as it is.
\<close>

fun exactNumbers :: "json \<Rightarrow> bool" where
  "exactNumbers (JNum v) = safeInteger v"
| "exactNumbers (JArr xs) = list_all exactNumbers xs"
| "exactNumbers (JObj ps) = list_all (\<lambda>p. exactNumbers (snd p)) ps"
| "exactNumbers JNull = True"
| "exactNumbers (JBool b) = True"
| "exactNumbers (JStr s) = True"

section \<open>Types (types.ts)\<close>

datatype McpTransportType = http | stdio

text \<open>The field \<open>method\<close> of \<open>HealthValidatorConfig\<close> is \<open>rpcMethod\<close> here.\<close>

record HealthValidatorConfig =
  rpcMethod :: string
  params :: json
  responseContains :: "string option"
  timeoutMs :: "int option"

record McpServerConfig =
  name :: string
  description :: string
  image :: string
  args :: "string list"
  postStartInstructions :: "string option"
  healthValidator :: "HealthValidatorConfig option"
  type :: McpTransportType

text \<open>
  \<open>McpState\<close>; its \<open>name\<close> field is \<open>mcpName\<close> here, since \<open>name\<close> is the server
  definition's. An optional field that is absent is \<open>None\<close>.
\<close>

record McpState =
  mcpName :: string
  endpoint :: string
  envFile :: "string option"
  online :: bool
  manageCursorConfig :: "bool option"

record McpStateFile =
  mcps :: "McpState list"
  updatedOn :: "string option"

section \<open>State management (state.ts)\<close>

text \<open>
  The loop that looks for \<open>--port\<close> in the arguments: \<open>i\<close> runs over every index but
  the last, and the first \<open>--port\<close> whose successor parses ends the loop.
\<close>

fun portFromArgs :: "string list \<Rightarrow> number option" where
  "portFromArgs (a # b # rest) =
     (if a = ''--port''
      then (case parseInt b of
              Some parsedPort \<Rightarrow> Some parsedPort
            | None \<Rightarrow> portFromArgs (b # rest))
      else portFromArgs (b # rest))"
| "portFromArgs _ = None"

text \<open>The endpoint that \<open>syncStateWithConfig\<close> makes up when it has none to keep.\<close>

definition defaultEndpoint :: "'a runtime_scheme \<Rightarrow> McpServerConfig \<Rightarrow> string" where
  "defaultEndpoint rt server =
     (if type server = http
      then ''http://localhost:''
           @ numberToString rt (case portFromArgs (args server) of
                                  Some port \<Rightarrow> port | None \<Rightarrow> Exact 9000)
           @ ''/sse''
      else ''command:docker:'' @ image server)"

text \<open>One turn of the loop over the configured servers.\<close>

definition syncServer ::
  "'a runtime_scheme \<Rightarrow> McpStateFile \<Rightarrow> McpServerConfig \<Rightarrow> McpState" where
  "syncServer rt state server =
     (let existingEntry = find (\<lambda>mcp. mcpName mcp = name server) (mcps state);
          endpoint' =
            (case existingEntry of
               Some e \<Rightarrow> if endpoint e \<noteq> [] then endpoint e else defaultEndpoint rt server
             | None \<Rightarrow> defaultEndpoint rt server)
      in \<lparr> mcpName = name server,
           endpoint = endpoint',
           envFile = Some (getEnvFilePath rt (name server)),
           online = (case existingEntry of Some e \<Rightarrow> online e | None \<Rightarrow> False),
           manageCursorConfig =
             (case existingEntry of Some e \<Rightarrow> manageCursorConfig e | None \<Rightarrow> None) \<rparr>)"

definition syncStateWithConfig ::
  "'a runtime_scheme \<Rightarrow> McpStateFile \<Rightarrow> McpServerConfig list \<Rightarrow> McpStateFile" where
  "syncStateWithConfig rt state servers =
     \<lparr> mcps = map (syncServer rt state) servers,
       updatedOn =
         Some (case updatedOn state of
                 Some u \<Rightarrow> if u \<noteq> [] then u else now rt
               | None \<Rightarrow> now rt) \<rparr>"

definition updateServerStatus ::
  "McpStateFile \<Rightarrow> string \<Rightarrow> bool \<Rightarrow> string option \<Rightarrow> McpStateFile" where
  "updateServerStatus state serverName isOnline endpoint' =
     state\<lparr> mcps :=
       map (\<lambda>mcp.
              if mcpName mcp = serverName
              then (case endpoint' of
                      Some e \<Rightarrow>
                        if e \<noteq> []
                        then mcp\<lparr> online := isOnline, endpoint := e,
                                  manageCursorConfig := manageCursorConfig mcp \<rparr>
                        else mcp\<lparr> online := isOnline,
                                  manageCursorConfig := manageCursorConfig mcp \<rparr>
                    | None \<Rightarrow>
                        mcp\<lparr> online := isOnline,
                             manageCursorConfig := manageCursorConfig mcp \<rparr>)
              else mcp)
           (mcps state) \<rparr>"

definition getServerState :: "McpStateFile \<Rightarrow> string \<Rightarrow> McpState option" where
  "getServerState state serverName = find (\<lambda>mcp. mcpName mcp = serverName) (mcps state)"

section \<open>Docker service (services/docker-service.ts)\<close>

text \<open>
  The Docker command line is outside the manager. It is a function from the daemon's
  state and the arguments of one \<open>docker\<close> invocation to what \<open>Deno.Command.output\<close>
  gives back and the daemon's new state. \<open>Rejected\<close> is a promise that rejects (the
  binary cannot be spawned); \<open>Exited code stdout stderr\<close> is a finished process.
  \<open>stdout\<close> and \<open>stderr\<close> are the texts that \<open>TextDecoder\<close> makes of the two streams.
  Every invocation is logged in \<open>issued\<close>.
\<close>

datatype cmd_result = Rejected | Exited int string string

type_synonym 'd docker = "'d \<Rightarrow> string list \<Rightarrow> cmd_result \<times> 'd"

record 'd dockerd =
  issued :: "string list list"
  daemon :: 'd

definition dockerCommand ::
  "'d docker \<Rightarrow> string list \<Rightarrow> 'd dockerd \<Rightarrow> cmd_result \<times> 'd dockerd" where
  "dockerCommand docker dockerArgs s =
     (case docker (daemon s) dockerArgs of
        (r, d) \<Rightarrow> (r, \<lparr> issued = issued s @ [dockerArgs], daemon = d \<rparr>))"




definition isContainerRunning ::
  "'d docker \<Rightarrow> string \<Rightarrow> 'd dockerd \<Rightarrow> bool \<times> 'd dockerd" where
  "isContainerRunning docker containerName s =
     (case dockerCommand docker
             [''ps'', ''--filter'', ''name='' @ containerName, ''--format'', ''{{.Names}}''] s of
        (Rejected, s1) \<Rightarrow> (False, s1)
      | (Exited code stdout stderr, s1) \<Rightarrow> (trim stdout = containerName, s1))"







section \<open>Files and prompts\<close>

text \<open>
  \<open>data/state.json\<close> as \<open>loadState\<close> finds it: \<open>Unavailable\<close> when \<open>exists\<close>,
  \<open>Deno.mkdir\<close> or \<open>Deno.readTextFile\<close> rejects, \<open>NoFile\<close> when the file is not
  there, \<open>Corrupt\<close> when \<open>JSON.parse\<close> throws, \<open>Stored\<close> when the file holds a state
  file of the declared type, as \<open>saveState\<close> writes it, and \<open>Foreign\<close> when it holds
  any other JSON document, such as \<open>{}\<close> or \<open>null\<close>. That \<open>loadState\<close> and
  \<open>saveState\<close> create the data directory is not tracked.
\<close>

datatype stateDisk = Unavailable | NoFile | Corrupt | Stored McpStateFile | Foreign json

text \<open>What \<open>loadState\<close> returns: it hands on what it parsed, unchecked.\<close>

datatype loaded = State McpStateFile | Other json

text \<open>
  The IDE's configuration file at a path: \<open>Missing\<close>, \<open>Unreadable\<close> (\<open>exists\<close> or
  \<open>Deno.readTextFile\<close> rejects), \<open>Garbled\<close> (\<open>JSON.parse\<close> throws) or a JSON document.
\<close>

datatype cursorDisk = Missing | Unreadable | Garbled | Document json

type_synonym AppConfig = "string \<Rightarrow> string option"

text \<open>
  The world of one command: the clock and the paths, both files, whether a write
  succeeds (a write that fails leaves the file as it was), what \<open>getAppConfig\<close>,
  \<open>getAvailablePort\<close> and the prompt of \<open>confirm\<close> give, and the outcome of the JSON-RPC
  exchange that \<open>validateHttpHealth\<close> and \<open>validateStdioHealth\<close> run against a server.
\<close>

record world = runtime +
  stateDisk :: stateDisk
  stateWritable :: bool
  cursorDisk :: "string \<Rightarrow> cursorDisk"
  cursorWritable :: "string \<Rightarrow> bool"
  getAppConfig :: "error + AppConfig"
  getAvailablePort :: "error + int"
  confirm :: "string \<Rightarrow> bool"
  httpExchange :: "McpServerConfig \<Rightarrow> HealthValidatorConfig \<Rightarrow> bool"
  stdioExchange :: "McpServerConfig \<Rightarrow> HealthValidatorConfig \<Rightarrow> bool"

section \<open>State file (state.ts)\<close>

definition emptyState :: "'a runtime_scheme \<Rightarrow> McpStateFile" where
  "emptyState rt = \<lparr> mcps = [], updatedOn = Some (now rt) \<rparr>"

text \<open>The body of \<open>loadState\<close>'s \<open>try\<close>.\<close>

definition loadStateTry :: "world \<Rightarrow> error + loaded" where
  "loadStateTry w =
     (case stateDisk w of
        Unavailable \<Rightarrow> Inl IoError
      | NoFile \<Rightarrow> Inr (State (emptyState w))
      | Corrupt \<Rightarrow> Inl SyntaxError
      | Stored fileContent \<Rightarrow> Inr (State fileContent)
      | Foreign fileContent \<Rightarrow> Inr (Other fileContent))"

definition loadState :: "world \<Rightarrow> error + loaded" where
  "loadState w =
     (case loadStateTry w of
        Inr state \<Rightarrow> Inr state
      | Inl e \<Rightarrow> Inr (State (emptyState w)))"

definition saveState :: "McpStateFile \<Rightarrow> world \<Rightarrow> world" where
  "saveState state w =
     (if stateWritable w
      then w\<lparr> stateDisk := Stored (state\<lparr> updatedOn := Some (now w) \<rparr>) \<rparr>
      else w)"

text \<open>
  \<open>updateServerCursorConfigPreference\<close>: the entry of that name gets the preference; a
  name without an entry gets a minimal entry at the end.
\<close>

definition updateServerCursorConfigPreference ::
  "'a runtime_scheme \<Rightarrow> McpStateFile \<Rightarrow> string \<Rightarrow> bool \<Rightarrow> McpStateFile" where
  "updateServerCursorConfigPreference rt state serverName manage =
     (if find (\<lambda>mcp. mcpName mcp = serverName) (mcps state) \<noteq> None
      then state\<lparr> mcps :=
             map (\<lambda>mcp. if mcpName mcp = serverName
                         then mcp\<lparr> manageCursorConfig := Some manage \<rparr> else mcp)
                 (mcps state) \<rparr>
      else state\<lparr> mcps :=
             mcps state @
               [\<lparr> mcpName = serverName, endpoint = [],
                  envFile = Some (getEnvFilePath rt serverName),
                  online = False, manageCursorConfig = Some manage \<rparr>] \<rparr>)"

subsection \<open>The same code on a document that is not a state file\<close>

text \<open>
  \<open>state.mcps\<close>, as the array whose \<open>map\<close> and \<open>find\<close> the code calls: anything
  else throws a \<open>TypeError\<close>.
\<close>

definition rawMcps :: "json \<Rightarrow> error + json list" where
  "rawMcps state =
     (case getProp state ''mcps'' of
        Inl e \<Rightarrow> Inl e
      | Inr None \<Rightarrow> Inl TypeError
      | Inr (Some (JArr entries)) \<Rightarrow> Inr entries
      | Inr (Some other) \<Rightarrow> Inl TypeError)"

text \<open>\<open>mcp.name === serverName\<close>.\<close>

definition rawNamed :: "json \<Rightarrow> string \<Rightarrow> error + bool" where
  "rawNamed mcp serverName =
     (case getProp mcp ''name'' of
        Inl e \<Rightarrow> Inl e
      | Inr v \<Rightarrow> Inr (v = Some (JStr serverName)))"




fun rawFind :: "json list \<Rightarrow> string \<Rightarrow> error + json option" where
  "rawFind [] serverName = Inr None"
| "rawFind (mcp # rest) serverName =
     (case rawNamed mcp serverName of
        Inl e \<Rightarrow> Inl e
      | Inr named \<Rightarrow> if named then Inr (Some mcp) else rawFind rest serverName)"

text \<open>\<open>getServerState\<close>.\<close>

definition rawGetServerState :: "json \<Rightarrow> string \<Rightarrow> error + json option" where
  "rawGetServerState state serverName =
     (case rawMcps state of
        Inl e \<Rightarrow> Inl e
      | Inr entries \<Rightarrow> rawFind entries serverName)"



section \<open>Health validator (services/health-validator-service.ts)\<close>

definition validateHttpHealth ::
  "McpServerConfig \<Rightarrow> HealthValidatorConfig \<Rightarrow> world \<Rightarrow> bool" where
  "validateHttpHealth server validator w =
     (if type server \<noteq> http then False else httpExchange w server validator)"

definition validateStdioHealth ::
  "McpServerConfig \<Rightarrow> HealthValidatorConfig \<Rightarrow> world \<Rightarrow> bool" where
  "validateStdioHealth server validator w =
     (if type server \<noteq> stdio then False else stdioExchange w server validator)"

definition validateServerHealth :: "McpServerConfig \<Rightarrow> world \<Rightarrow> bool" where
  "validateServerHealth server w =
     (case healthValidator server of
        None \<Rightarrow> True
      | Some validator \<Rightarrow>
          (case type server of
             http \<Rightarrow> validateHttpHealth server validator w
           | stdio \<Rightarrow> validateStdioHealth server validator w))"

section \<open>Cursor configuration (services/cursor-service.ts)\<close>

definition readMcpConfigFile :: "string \<Rightarrow> world \<Rightarrow> json" where
  "readMcpConfigFile configPath w =
     (case cursorDisk w configPath of
        Missing \<Rightarrow> JObj []
      | Unreadable \<Rightarrow> JObj []
      | Garbled \<Rightarrow> JObj []
      | Document jsonContent \<Rightarrow> jsonContent)"

text \<open>
  The file gets what \<open>JSON.stringify\<close> prints for the configuration, so a later
  \<open>JSON.parse\<close> reads \<open>printed\<close> of it.
\<close>

definition writeMcpConfigFile :: "string \<Rightarrow> json \<Rightarrow> world \<Rightarrow> bool \<times> world" where
  "writeMcpConfigFile configPath config w =
     (if cursorWritable w configPath
      then (True,
            w\<lparr> cursorDisk := (cursorDisk w)(configPath := Document (printed w config)) \<rparr>)
      else (False, w))"

definition getMcpServers :: "string \<Rightarrow> world \<Rightarrow> json" where
  "getMcpServers configPath w =
     (case getProp (readMcpConfigFile configPath w) ''mcpServers'' of
        Inl e \<Rightarrow> JObj []
      | Inr None \<Rightarrow> JObj []
      | Inr (Some mcpServers) \<Rightarrow> if truthy mcpServers then mcpServers else JObj [])"

text \<open>The loop of \<open>addMcpServers\<close> over \<open>Object.entries(servers)\<close>.\<close>

fun assignServers :: "json \<Rightarrow> (string \<times> json) list \<Rightarrow> error + json" where
  "assignServers mcpServers [] = Inr mcpServers"
| "assignServers mcpServers ((name', serverConfig) # rest) =
     (case setProp mcpServers name' serverConfig of
        Inl e \<Rightarrow> Inl e
      | Inr mcpServers' \<Rightarrow> assignServers mcpServers' rest)"

text \<open>
  \<open>addMcpServers\<close>. A document that is an array takes \<open>mcpServers\<close> as a property that
  \<open>JSON.stringify\<close> does not print, so the array is written back as it was; \<open>null\<close>
  and the primitive values throw a \<open>TypeError\<close> at \<open>config.mcpServers\<close>, which the
  \<open>catch\<close> turns into \<open>false\<close> before anything is written.
\<close>

definition addMcpServers ::
  "string \<Rightarrow> (string \<times> json) list \<Rightarrow> world \<Rightarrow> bool \<times> world" where
  "addMcpServers configPath servers w =
     (case readMcpConfigFile configPath w of
        JObj ps \<Rightarrow>
          (let initialised =
                 (case map_of ps ''mcpServers'' of
                    None \<Rightarrow> JObj []
                  | Some v \<Rightarrow> if truthy v then v else JObj [])
           in case assignServers initialised servers of
                Inl e \<Rightarrow> (False, w)
              | Inr mcpServers \<Rightarrow>
                  writeMcpConfigFile configPath
                    (JObj (AList.update ''mcpServers'' mcpServers ps)) w)
      | JArr xs \<Rightarrow> writeMcpConfigFile configPath (JArr xs) w
      | JNull \<Rightarrow> (False, w)
      | JBool b \<Rightarrow> (False, w)
      | JNum n \<Rightarrow> (False, w)
      | JStr s \<Rightarrow> (False, w))"

section \<open>Orchestrator (orchestrator.ts)\<close>

definition getPortFromArgs :: "string list \<Rightarrow> bool \<Rightarrow> world \<Rightarrow> number option" where
  "getPortFromArgs args' dynamicFallback w =
     (case portFromArgs args' of
        Some port \<Rightarrow> Some port
      | None \<Rightarrow>
          if dynamicFallback
          then (case getAvailablePort w of
                  Inr port \<Rightarrow> Some (toNumber port)
                | Inl e \<Rightarrow> None)
          else None)"

definition startsWith :: "string \<Rightarrow> string \<Rightarrow> bool" where
  "startsWith s p = (take (length p) s = p)"

definition httpEntry :: "string \<Rightarrow> json" where
  "httpEntry url = JObj [(''url'', JStr url)]"

definition stdioEntry :: "McpServerConfig \<Rightarrow> world \<Rightarrow> json" where
  "stdioEntry server w =
     JObj [(''command'', JStr ''docker''),
           (''args'',
            JArr (map JStr
                    ([''run'', ''-i'', ''--rm'', ''--env-file'',
                      getEnvFilePath w (name server), image server] @ args server)))]"

text \<open>What \<open>transformServerConfigForCursor\<close> builds when the state has nothing to use.\<close>

definition fallbackEntry :: "McpServerConfig \<Rightarrow> world \<Rightarrow> json" where
  "fallbackEntry server w =
     (case type server of
        http \<Rightarrow>
          (case getPortFromArgs (args server) True w of
             None \<Rightarrow> httpEntry ''http://localhost:9000/sse''
           | Some port \<Rightarrow>
               if port = Exact 0 then httpEntry ''http://localhost:9000/sse''
               else httpEntry (''http://localhost:'' @ numberToString w port @ ''/sse''))
      | stdio \<Rightarrow> stdioEntry server w)"

text \<open>The entry for a server whose state holds the endpoint \<open>ep\<close>, a string that is not empty.\<close>

definition entryForEndpoint :: "McpServerConfig \<Rightarrow> world \<Rightarrow> string \<Rightarrow> json" where
  "entryForEndpoint server w ep =
     (if type server = http \<and> startsWith ep ''http://'' then httpEntry ep
      else if type server = stdio \<and> startsWith ep ''command:'' then stdioEntry server w
      else fallbackEntry server w)"

text \<open>
  \<open>transformServerConfigForCursor\<close>. On a document that is not a state file, whatever
  throws inside the \<open>try\<close> (no array \<open>mcps\<close>, a \<open>null\<close> entry, an endpoint that is
  truthy but no string, so that \<open>startsWith\<close> is no function) ends in the fallback.
\<close>

definition transformServerConfigForCursor :: "McpServerConfig \<Rightarrow> world \<Rightarrow> json" where
  "transformServerConfigForCursor server w =
     (case loadState w of
        Inl e \<Rightarrow> fallbackEntry server w
      | Inr (State state) \<Rightarrow>
          (case getServerState state (name server) of
             None \<Rightarrow> fallbackEntry server w
           | Some serverState \<Rightarrow>
               if endpoint serverState = [] then fallbackEntry server w
               else entryForEndpoint server w (endpoint serverState))
      | Inr (Other state) \<Rightarrow>
          (case rawGetServerState state (name server) of
             Inl e \<Rightarrow> fallbackEntry server w
           | Inr None \<Rightarrow> fallbackEntry server w
           | Inr (Some serverState) \<Rightarrow>
               (case getProp serverState ''endpoint'' of
                  Inl e \<Rightarrow> fallbackEntry server w
                | Inr None \<Rightarrow> fallbackEntry server w
                | Inr (Some (JStr ep)) \<Rightarrow>
                    if ep = [] then fallbackEntry server w
                    else entryForEndpoint server w ep
                | Inr (Some other) \<Rightarrow> fallbackEntry server w)))"



definition healthCheck ::
  "'d docker \<Rightarrow> McpServerConfig \<Rightarrow> world \<Rightarrow> 'd dockerd \<Rightarrow> bool \<times> 'd dockerd" where
  "healthCheck docker server w s =
     (let afterGuard =
            (\<lambda>s'. case healthValidator server of
                     None \<Rightarrow> (True, s')
                   | Some validator \<Rightarrow> (validateServerHealth server w, s'))
      in case type server of
           http \<Rightarrow>
             (case isContainerRunning docker (name server) s of
                (containerRunning, s1) \<Rightarrow>
                  if \<not> containerRunning then (False, s1) else afterGuard s1)
         | stdio \<Rightarrow> afterGuard s)"

definition updateCursorConfigForServer ::
  "McpServerConfig \<Rightarrow> bool \<Rightarrow> world \<Rightarrow> bool \<times> world" where
  "updateCursorConfigForServer server forceUpdate w =
     (case getAppConfig w of
        Inl e \<Rightarrow> (False, w)
      | Inr appConfig \<Rightarrow>
          (case appConfig ''CURSOR_MCP_CONFIG_PATH'' of
             None \<Rightarrow> (True, w)
           | Some mcpConfigPath \<Rightarrow>
               if mcpConfigPath = [] then (True, w)
               else
                 (let transformedConfig = transformServerConfigForCursor server w;
                      currentServers = getMcpServers mcpConfigPath w;
                      currentConfig =
                        (case getProp currentServers (name server) of
                           Inl e \<Rightarrow> None | Inr v \<Rightarrow> v);
                      serverInConfig =
                        (case currentConfig of None \<Rightarrow> False | Some v \<Rightarrow> truthy v)
                  in if serverInConfig
                        \<and> map_option (printed w) currentConfig = Some transformedConfig
                     then (True, w)
                     else if (if forceUpdate then True
                              else confirm w
                                     (''Would you like to automatically ''
                                      @ (if serverInConfig then ''update'' else ''add'')
                                      @ '' '' @ description server
                                      @ '' ('' @ name server
                                      @ '') in your Cursor MCP config at ''
                                      @ mcpConfigPath @ ''?''))
                     then addMcpServers mcpConfigPath
                            [(name server, transformedConfig)] w
                     else (True, w))))"

section \<open>Example servers, states and worlds\<close>

text \<open>
  The runtime of the examples. Of the numbers beyond \<open>2 ^ 53\<close> the examples use one,
  \<open>9007199254740993\<close>, which a double holds as \<open>9007199254740992\<close>; what the example
  runtime makes of any other is never looked at, and stands here as an infinity.
\<close>

definition exampleRuntime :: runtime where
  "exampleRuntime =
     \<lparr> now = ''2025-06-01T12:00:00.000Z'',
       getEnvFilePath = (\<lambda>n. ''/ws/servers/config/'' @ n @ ''.env''),
       bigToString = (\<lambda>v. if v = 9007199254740993 then ''9007199254740992''
                           else ''Infinity''),
       reprinted = (\<lambda>v. if v = 9007199254740993 then JNum 9007199254740992 else JNull) \<rparr>"

definition svc :: McpServerConfig where
  "svc = \<lparr> name = ''svc'', description = ''Example HTTP server'', image = ''example/svc'',
           args = [''--transport'', ''sse''], postStartInstructions = None,
           healthValidator = None, type = http \<rparr>"

definition svcPort :: McpServerConfig where
  "svcPort = svc\<lparr> name := ''svc-port'', args := [''--transport'', ''sse'', ''--port'', ''9001''] \<rparr>"

definition svcBig :: McpServerConfig where
  "svcBig = svc\<lparr> name := ''svc-big'', args := [''--port'', ''9007199254740993''] \<rparr>"

definition svcio :: McpServerConfig where
  "svcio = \<lparr> name = ''svcio'', description = ''Example STDIO server'', image = ''img'',
             args = [], postStartInstructions = None,
             healthValidator =
               Some \<lparr> rpcMethod = ''tools/list'', params = JObj [], responseContains = None,
                      timeoutMs = None \<rparr>,
             type = stdio \<rparr>"

definition minimalState :: McpStateFile where
  "minimalState =
     \<lparr> mcps = [\<lparr> mcpName = ''svc'', endpoint = [], envFile = None, online = False,
                 manageCursorConfig = Some True \<rparr>],
       updatedOn = Some ''2025-05-01T08:00:00.000Z'' \<rparr>"

definition exampleState :: McpStateFile where
  "exampleState =
     \<lparr> mcps = [\<lparr> mcpName = ''svc'', endpoint = ''http://localhost:9500/sse'',
                 envFile = Some ''/ws/servers/config/svc.env'', online = True,
                 manageCursorConfig = Some True \<rparr>,
               \<lparr> mcpName = ''gone'', endpoint = ''http://localhost:7000/sse'',
                 envFile = None, online = True, manageCursorConfig = None \<rparr>],
       updatedOn = Some ''2025-05-01T08:00:00.000Z'' \<rparr>"

definition onlineState :: McpStateFile where
  "onlineState =
     \<lparr> mcps = [\<lparr> mcpName = ''svcio'', endpoint = [],
                 envFile = Some ''/ws/servers/config/svcio.env'', online = True,
                 manageCursorConfig = None \<rparr>,
               \<lparr> mcpName = ''svc'', endpoint = ''http://localhost:9500/sse'',
                 envFile = Some ''/ws/servers/config/svc.env'', online = True,
                 manageCursorConfig = None \<rparr>],
       updatedOn = Some ''2025-05-01T08:00:00.000Z'' \<rparr>"

definition exampleDocument :: json where
  "exampleDocument =
     JObj [(''theme'', JStr ''dark''),
           (''mcpServers'',
            JObj [(''svc'', httpEntry ''http://localhost:9001/sse''),
                  (''other'', httpEntry ''http://localhost:7000/sse'')])]"

definition cursorPath :: string where
  "cursorPath = ''/home/u/.cursor/mcp.json''"

definition exampleWorld :: world where
  "exampleWorld =
     \<lparr> now = ''2025-06-01T12:00:00.000Z'',
       getEnvFilePath = (\<lambda>n. ''/ws/servers/config/'' @ n @ ''.env''),
       bigToString = (\<lambda>v. if v = 9007199254740993 then ''9007199254740992''
                           else ''Infinity''),
       reprinted = (\<lambda>v. if v = 9007199254740993 then JNum 9007199254740992 else JNull),
       stateDisk = Stored onlineState,
       stateWritable = True,
       cursorDisk = (\<lambda>p. if p = cursorPath then Document exampleDocument else Missing),
       cursorWritable = (\<lambda>p. True),
       getAppConfig = Inr (\<lambda>k. if k = ''CURSOR_MCP_CONFIG_PATH''
                                then Some cursorPath else None),
       getAvailablePort = Inr 9500,
       confirm = (\<lambda>question. True),
       httpExchange = (\<lambda>server validator. True),
       stdioExchange = (\<lambda>server validator. True) \<rparr>"

text \<open>A Docker whose listing is always empty, and one that lists the container \<open>svc\<close>.\<close>

definition noContainers :: "unit docker" where
  "noContainers d dockerArgs = (Exited 0 [] [], d)"

definition svcRunning :: "unit docker" where
  "svcRunning d dockerArgs = (Exited 0 (''svc'' @ [CHR 0x0A]) [], d)"

definition freshDockerd :: "unit dockerd" where
  "freshDockerd = \<lparr> issued = [], daemon = () \<rparr>"





text \<open>The example world with a state file that holds \<open>{}\<close>.\<close>

definition emptyObjectWorld :: world where
  "emptyObjectWorld = exampleWorld\<lparr> stateDisk := Foreign (JObj []) \<rparr>"





text \<open>The example world with an array where the IDE keeps \<open>mcpServers\<close>.\<close>

definition arrayWorld :: world where
  "arrayWorld =
     exampleWorld\<lparr> cursorDisk :=
       (\<lambda>p. if p = cursorPath
            then Document (JObj [(''theme'', JStr ''dark''), (''mcpServers'', JArr [])])
            else Missing) \<rparr>"

text \<open>The example world with an IDE configuration that holds a number beyond \<open>2 ^ 53\<close>.\<close>

definition bigWorld :: world where
  "bigWorld =
     exampleWorld\<lparr> cursorDisk :=
       (\<lambda>p. if p = cursorPath
            then Document (JObj [(''limit'', JNum 9007199254740993)])
            else Missing) \<rparr>"

text \<open>The example world with an IDE configuration that does not parse.\<close>

definition garbledWorld :: world where
  "garbledWorld =
     exampleWorld\<lparr> cursorDisk := (\<lambda>p. if p = cursorPath then Garbled else Missing) \<rparr>"

text \<open>The example world with an IDE configuration that cannot be written.\<close>

definition lockedWorld :: world where
  "lockedWorld = exampleWorld\<lparr> cursorWritable := (\<lambda>p. False) \<rparr>"

section \<open>Evaluation of the examples\<close>

lemma parse9001: "parseInt ''9001'' = Some (Exact 9001)"
  by (simp add: parseInt_def stripLeading.simps whiteSpace_def digitValue_def digitsToNat_def
        toNumber_def)

lemma parseBig: "parseInt ''9007199254740993'' = Some (Rounded 9007199254740993)"
  by (simp add: parseInt_def stripLeading.simps whiteSpace_def digitValue_def digitsToNat_def
        toNumber_def)

lemma defaultEndpoint_svc: "defaultEndpoint rt svc = ''http://localhost:9000/sse''"
  by (simp add: defaultEndpoint_def svc_def numberToString_def intToString_def
        natToString.simps)

lemma defaultEndpoint_svcPort: "defaultEndpoint rt svcPort = ''http://localhost:9001/sse''"
  by (simp add: defaultEndpoint_def svc_def svcPort_def numberToString_def intToString_def
        natToString.simps parse9001)

lemma defaultEndpoint_svcBig:
  "defaultEndpoint exampleRuntime svcBig = ''http://localhost:9007199254740992/sse''"
  by (simp add: defaultEndpoint_def svc_def svcBig_def numberToString_def parseBig
        exampleRuntime_def)

lemma defaultEndpoint_svcio: "defaultEndpoint rt svcio = ''command:docker:img''"
  by (simp add: defaultEndpoint_def svcio_def)


lemma loadState_exampleWorld: "loadState exampleWorld = Inr (State onlineState)"
  by (simp add: loadState_def loadStateTry_def exampleWorld_def)



lemma trim_svc: "trim (''svc'' @ [CHR 0x0A]) = ''svc''"
  by (simp add: trim_def stripLeading.simps whiteSpace_def)


lemma trim_empty: "trim [] = []"
  by (simp add: trim_def stripLeading.simps whiteSpace_def)

lemma running_svc: "fst (isContainerRunning svcRunning ''svc'' freshDockerd) = True"
  using trim_svc by (simp add: isContainerRunning_def dockerCommand_def svcRunning_def)

lemma not_running_svc: "fst (isContainerRunning noContainers ''svc'' freshDockerd) = False"
  by (simp add: isContainerRunning_def dockerCommand_def noContainers_def trim_empty)

lemma read_example: "readMcpConfigFile cursorPath exampleWorld = exampleDocument"
  by (simp add: readMcpConfigFile_def exampleWorld_def)

lemma servers_example:
  "getMcpServers cursorPath exampleWorld =
     JObj [(''svc'', httpEntry ''http://localhost:9001/sse''),
           (''other'', httpEntry ''http://localhost:7000/sse'')]"
  by (simp add: getMcpServers_def read_example) (simp add: exampleDocument_def)

lemma svc_state:
  "getServerState onlineState ''svc'' =
     Some \<lparr> mcpName = ''svc'', endpoint = ''http://localhost:9500/sse'',
            envFile = Some ''/ws/servers/config/svc.env'', online = True,
            manageCursorConfig = None \<rparr>"
  by (simp add: getServerState_def onlineState_def)

lemma transform_example:
  "transformServerConfigForCursor svc exampleWorld = httpEntry ''http://localhost:9500/sse''"
proof -
  have n: "name svc = ''svc''" and t: "type svc = http"
    by (simp_all add: svc_def)
  have s: "startsWith ''http://localhost:9500/sse'' ''http://''"
    by (simp add: startsWith_def)
  show ?thesis
    by (simp add: transformServerConfigForCursor_def loadState_exampleWorld n svc_state
          entryForEndpoint_def t s)
qed

lemma config_example:
  "getAppConfig exampleWorld =
     Inr (\<lambda>k. if k = ''CURSOR_MCP_CONFIG_PATH'' then Some cursorPath else None)"
  by (simp add: exampleWorld_def)

section \<open>Reconciliation: \<open>syncStateWithConfig\<close>\<close>

lemma syncServer_name: "mcpName (syncServer rt state server) = name server"
  by (simp add: syncServer_def Let_def)

lemma syncServer_matched:
  "find (\<lambda>mcp. mcpName mcp = name server) (mcps state) = Some e \<Longrightarrow>
   syncServer rt state server =
     \<lparr> mcpName = name server,
       endpoint = (if endpoint e \<noteq> [] then endpoint e else defaultEndpoint rt server),
       envFile = Some (getEnvFilePath rt (name server)),
       online = online e,
       manageCursorConfig = manageCursorConfig e \<rparr>"
  by (simp add: syncServer_def)

lemma syncServer_unmatched:
  "name server \<notin> mcpName ` set (mcps state) \<Longrightarrow>
   syncServer rt state server =
     \<lparr> mcpName = name server,
       endpoint = defaultEndpoint rt server,
       envFile = Some (getEnvFilePath rt (name server)),
       online = False,
       manageCursorConfig = None \<rparr>"
proof -
  assume "name server \<notin> mcpName ` set (mcps state)"
  then have "find (\<lambda>mcp. mcpName mcp = name server) (mcps state) = None"
    by (force simp: find_None_iff)
  then show ?thesis
    by (simp add: syncServer_def)
qed

text \<open>
  Claim C1, as the code has it. \<open>syncStateWithConfig\<close> returns one entry per server
  definition, in the order of the definitions and under the definition's name. A
  definition whose name has a prior entry (the first of that name) keeps that entry's
  \<open>manageCursorConfig\<close>, and keeps its endpoint when that endpoint is not the empty
  string; an empty prior endpoint is replaced by the default. A definition without a
  prior entry gets the default endpoint, \<open>online = false\<close> and no
  \<open>manageCursorConfig\<close>. The default endpoint is \<open>command:docker:<image>\<close> for
  stdio and \<open>http://localhost:<port>/sse\<close> for http. The port is \<open>9000\<close> when no
  \<open>--port\<close> argument is followed by one that \<open>Number.parseInt\<close> reads; otherwise it
  is the number read after the first such \<open>--port\<close>, printed as JavaScript prints a
  number: in decimal digits when it is below \<open>2 ^ 53\<close> in magnitude, and as the runtime
  prints the double it was rounded to beyond that.
  A prior entry whose name is not among the definitions has no entry in the result.
\<close>

theorem syncStateWithConfig_reconcile:
  "map mcpName (mcps (syncStateWithConfig rt state servers)) = map name servers \<and>
   list_all2
     (\<lambda>server out.
        (\<forall>e. find (\<lambda>mcp. mcpName mcp = name server) (mcps state) = Some e \<longrightarrow>
             manageCursorConfig out = manageCursorConfig e \<and>
             (endpoint e \<noteq> [] \<longrightarrow> endpoint out = endpoint e) \<and>
             (endpoint e = [] \<longrightarrow> endpoint out = defaultEndpoint rt server)) \<and>
        (name server \<notin> mcpName ` set (mcps state) \<longrightarrow>
             endpoint out = defaultEndpoint rt server \<and> online out = False \<and>
             manageCursorConfig out = None) \<and>
        (type server = http \<longrightarrow>
             defaultEndpoint rt server =
               ''http://localhost:''
               @ (case portFromArgs (args server) of
                    None \<Rightarrow> ''9000''
                  | Some (Exact port) \<Rightarrow> intToString port
                  | Some (Rounded v) \<Rightarrow> bigToString rt v)
               @ ''/sse'') \<and>
        (type server = stdio \<longrightarrow>
             defaultEndpoint rt server = ''command:docker:'' @ image server))
     servers (mcps (syncStateWithConfig rt state servers)) \<and>
   (\<forall>e \<in> set (mcps state).
      mcpName e \<notin> name ` set servers \<longrightarrow>
      mcpName e \<notin> mcpName ` set (mcps (syncStateWithConfig rt state servers)))"
  (is "?names \<and> ?entries \<and> ?dropped")
proof (intro conjI)
  show names: ?names
    by (simp add: syncStateWithConfig_def syncServer_name)
  have "mcpName ` set (mcps (syncStateWithConfig rt state servers)) = name ` set servers"
    using names by (metis set_map)
  then show ?dropped
    by simp
  have http: "defaultEndpoint rt server =
               ''http://localhost:''
               @ (case portFromArgs (args server) of
                    None \<Rightarrow> ''9000''
                  | Some (Exact port) \<Rightarrow> intToString port
                  | Some (Rounded v) \<Rightarrow> bigToString rt v)
               @ ''/sse''"
    if "type server = http" for server
    using that
    by (simp add: defaultEndpoint_def numberToString_def intToString_def natToString.simps
          split: option.splits number.splits)
  have stdio: "defaultEndpoint rt server = ''command:docker:'' @ image server"
    if "type server = stdio" for server
    using that by (simp add: defaultEndpoint_def)
  show ?entries
    unfolding syncStateWithConfig_def
    by (auto simp: list_all2_map2 list_all2_same syncServer_matched syncServer_unmatched
          http stdio)
qed

theorem syncStateWithConfig_reconcile_witness:
  "endpoint (mcps (syncStateWithConfig exampleRuntime exampleState [svcBig]) ! 0)
     = ''http://localhost:9007199254740992/sse'' \<and>
   map mcpName (mcps (syncStateWithConfig exampleRuntime exampleState [svc, svcPort, svcio]))
     = [''svc'', ''svc-port'', ''svcio''] \<and>
   endpoint (mcps (syncStateWithConfig exampleRuntime exampleState [svc, svcPort, svcio]) ! 0)
     = ''http://localhost:9500/sse'' \<and>
   manageCursorConfig
     (mcps (syncStateWithConfig exampleRuntime exampleState [svc, svcPort, svcio]) ! 0)
     = Some True \<and>
   endpoint (mcps (syncStateWithConfig exampleRuntime exampleState [svc, svcPort, svcio]) ! 1)
     = ''http://localhost:9001/sse'' \<and>
   endpoint (mcps (syncStateWithConfig exampleRuntime exampleState [svc, svcPort, svcio]) ! 2)
     = ''command:docker:img'' \<and>
   online (mcps (syncStateWithConfig exampleRuntime exampleState [svc, svcPort, svcio]) ! 2)
     = False \<and>
   ''gone'' \<notin> mcpName ` set (mcps (syncStateWithConfig exampleRuntime exampleState
                                      [svc, svcPort, svcio]))"
proof -
  have names: "name svc = ''svc''" "name svcPort = ''svc-port''" "name svcio = ''svcio''"
    by (simp_all add: svc_def svcPort_def svcio_def)
  have prior:
    "find (\<lambda>mcp. mcpName mcp = ''svc'') (mcps exampleState) = Some (hd (mcps exampleState))"
    "''svc-port'' \<notin> mcpName ` set (mcps exampleState)"
    "''svcio'' \<notin> mcpName ` set (mcps exampleState)"
    by (simp_all add: exampleState_def)
  have eps: "endpoint (hd (mcps exampleState)) = ''http://localhost:9500/sse''"
    "manageCursorConfig (hd (mcps exampleState)) = Some True"
    by (simp_all add: exampleState_def)
  have gone: "hd (tl (mcps exampleState)) \<in> set (mcps exampleState)"
    "mcpName (hd (tl (mcps exampleState))) = ''gone''"
    by (simp_all add: exampleState_def)
  have notin: "''gone'' \<notin> name ` set [svc, svcPort, svcio]"
    by (simp add: names)
  have big: "name svcBig = ''svc-big''" "''svc-big'' \<notin> mcpName ` set (mcps exampleState)"
    by (simp_all add: svc_def svcBig_def exampleState_def)
  note B = conjunct1 [OF conjunct2
             [OF syncStateWithConfig_reconcile [of exampleRuntime exampleState "[svcBig]"]]]
  have b: "endpoint (mcps (syncStateWithConfig exampleRuntime exampleState [svcBig]) ! 0)
     = ''http://localhost:9007199254740992/sse''"
    using list_all2_nthD [OF B, of 0] by (simp add: big defaultEndpoint_svcBig)
  note T = syncStateWithConfig_reconcile [of exampleRuntime exampleState "[svc, svcPort, svcio]"]
  note N = conjunct1 [OF T]
  note E = conjunct1 [OF conjunct2 [OF T]]
  note D = conjunct2 [OF conjunct2 [OF T]]
  have n: "map mcpName (mcps (syncStateWithConfig exampleRuntime exampleState [svc, svcPort, svcio]))
     = [''svc'', ''svc-port'', ''svcio'']"
    using N by (simp add: names)
  have e0: "endpoint (mcps (syncStateWithConfig exampleRuntime exampleState [svc, svcPort, svcio]) ! 0)
     = ''http://localhost:9500/sse'' \<and>
   manageCursorConfig
     (mcps (syncStateWithConfig exampleRuntime exampleState [svc, svcPort, svcio]) ! 0)
     = Some True"
    using list_all2_nthD [OF E, of 0] by (simp add: names prior eps)
  have e1: "endpoint (mcps (syncStateWithConfig exampleRuntime exampleState [svc, svcPort, svcio]) ! 1)
     = ''http://localhost:9001/sse''"
    using list_all2_nthD [OF E, of 1] by (simp add: names prior defaultEndpoint_svcPort)
  have e2: "endpoint (mcps (syncStateWithConfig exampleRuntime exampleState [svc, svcPort, svcio]) ! 2)
     = ''command:docker:img'' \<and>
   online (mcps (syncStateWithConfig exampleRuntime exampleState [svc, svcPort, svcio]) ! 2)
     = False"
    using list_all2_nthD [OF E, of 2] by (simp add: names prior defaultEndpoint_svcio)
  have d: "''gone'' \<notin> mcpName ` set (mcps (syncStateWithConfig exampleRuntime exampleState
                                      [svc, svcPort, svcio]))"
    using bspec [OF D gone(1)] notin by (simp add: gone(2))
  show ?thesis
    using b n e0 e1 e2 d by blast
qed

text \<open>
  Claim C1 as stated fails where the prior entry's endpoint is the empty string, which
  is the endpoint of the minimal entry that \<open>updateServerCursorConfigPreference\<close>
  creates: the entry of \<open>svc\<close> does not keep it.
\<close>

theorem syncStateWithConfig_empty_endpoint_counterexample:
  "mcps minimalState =
     [\<lparr> mcpName = ''svc'', endpoint = [], envFile = None, online = False,
        manageCursorConfig = Some True \<rparr>] \<and>
   name svc = ''svc'' \<and>
   mcps (syncStateWithConfig exampleRuntime minimalState [svc]) =
     [\<lparr> mcpName = ''svc'', endpoint = ''http://localhost:9000/sse'',
        envFile = Some ''/ws/servers/config/svc.env'', online = False,
        manageCursorConfig = Some True \<rparr>]"
  by (simp add: minimalState_def syncStateWithConfig_def syncServer_def defaultEndpoint_svc
        exampleRuntime_def) (simp add: svc_def)

text \<open>
  Claim C9. The entry that \<open>syncStateWithConfig\<close> makes for a definition has the
  \<open>online\<close> flag of the prior entry of that name (the first one), and \<open>false\<close> when
  there is no such entry: a server recorded as online stays online.
\<close>

theorem syncStateWithConfig_keeps_online:
  "list_all2
     (\<lambda>server out.
        (\<forall>e. find (\<lambda>mcp. mcpName mcp = name server) (mcps state) = Some e \<longrightarrow>
             online out = online e) \<and>
        (name server \<notin> mcpName ` set (mcps state) \<longrightarrow> online out = False))
     servers (mcps (syncStateWithConfig rt state servers))"
  unfolding syncStateWithConfig_def
  by (auto simp: list_all2_map2 list_all2_same syncServer_matched syncServer_unmatched)

theorem syncStateWithConfig_keeps_online_witness:
  "online (hd (mcps exampleState)) = True \<and>
   online (mcps (syncStateWithConfig exampleRuntime exampleState [svc, svcio]) ! 0) = True \<and>
   online (mcps (syncStateWithConfig exampleRuntime exampleState [svc, svcio]) ! 1) = False"
proof -
  have names: "name svc = ''svc''" "name svcio = ''svcio''"
    by (simp_all add: svc_def svcio_def)
  have prior:
    "find (\<lambda>mcp. mcpName mcp = ''svc'') (mcps exampleState) = Some (hd (mcps exampleState))"
    "''svcio'' \<notin> mcpName ` set (mcps exampleState)"
    "online (hd (mcps exampleState)) = True"
    by (simp_all add: exampleState_def)
  note T = syncStateWithConfig_keeps_online [of exampleState "[svc, svcio]" exampleRuntime]
  have o0: "online (mcps (syncStateWithConfig exampleRuntime exampleState [svc, svcio]) ! 0) = True"
    using list_all2_nthD [OF T, of 0] by (simp add: names prior)
  have o1: "online (mcps (syncStateWithConfig exampleRuntime exampleState [svc, svcio]) ! 1) = False"
    using list_all2_nthD [OF T, of 1] by (simp add: names prior)
  show ?thesis
    using o0 o1 prior(3) by blast
qed

section \<open>Status updates: \<open>updateServerStatus\<close>\<close>

text \<open>
  Claim C6. \<open>updateServerStatus\<close> returns the state file with \<open>updatedOn\<close> as it was
  and the entries changed one by one: an entry of the given name gets the given
  \<open>online\<close> flag, and the given endpoint when one is supplied and is not the empty
  string, keeping its endpoint otherwise; its \<open>manageCursorConfig\<close> and its other
  fields are as before. An entry of another name is unchanged.
\<close>

theorem updateServerStatus_pure_update:
  "updatedOn (updateServerStatus state serverName isOnline ep) = updatedOn state \<and>
   list_all2
     (\<lambda>old new.
        (mcpName old = serverName \<longrightarrow>
           new = old\<lparr> online := isOnline,
                      endpoint := (case ep of
                                     None \<Rightarrow> endpoint old
                                   | Some e \<Rightarrow> if e \<noteq> [] then e else endpoint old) \<rparr>
           \<and> manageCursorConfig new = manageCursorConfig old) \<and>
        (mcpName old \<noteq> serverName \<longrightarrow> new = old))
     (mcps state) (mcps (updateServerStatus state serverName isOnline ep))"
  by (auto simp: updateServerStatus_def list_all2_map2 list_all2_same split: option.splits)

theorem updateServerStatus_pure_update_witness:
  "mcps (updateServerStatus exampleState ''svc'' False None) ! 0 =
     \<lparr> mcpName = ''svc'', endpoint = ''http://localhost:9500/sse'',
       envFile = Some ''/ws/servers/config/svc.env'', online = False,
       manageCursorConfig = Some True \<rparr> \<and>
   mcps (updateServerStatus exampleState ''svc'' False None) ! 1 = mcps exampleState ! 1 \<and>
   mcps (updateServerStatus exampleState ''gone'' True (Some ''http://localhost:7001/sse'')) ! 1 =
     \<lparr> mcpName = ''gone'', endpoint = ''http://localhost:7001/sse'',
       envFile = None, online = True, manageCursorConfig = None \<rparr>"
proof -
  note T = conjunct2 [OF updateServerStatus_pure_update [of exampleState "''svc''" False None]]
  note U = conjunct2 [OF updateServerStatus_pure_update
                          [of exampleState "''gone''" True "Some ''http://localhost:7001/sse''"]]
  have a: "mcps (updateServerStatus exampleState ''svc'' False None) ! 0 =
     \<lparr> mcpName = ''svc'', endpoint = ''http://localhost:9500/sse'',
       envFile = Some ''/ws/servers/config/svc.env'', online = False,
       manageCursorConfig = Some True \<rparr>"
    using list_all2_nthD [OF T, of 0] by (simp add: exampleState_def)
  have b: "mcps (updateServerStatus exampleState ''svc'' False None) ! 1 = mcps exampleState ! 1"
    using list_all2_nthD [OF T, of 1] by (simp add: exampleState_def)
  have c: "mcps (updateServerStatus exampleState ''gone'' True (Some ''http://localhost:7001/sse'')) ! 1 =
     \<lparr> mcpName = ''gone'', endpoint = ''http://localhost:7001/sse'',
       envFile = None, online = True, manageCursorConfig = None \<rparr>"
    using list_all2_nthD [OF U, of 1] by (simp add: exampleState_def)
  show ?thesis
    using a b c by blast
qed

text \<open>
  Claim C10. With a name that no entry has, \<open>updateServerStatus\<close> returns the state
  file it was given: no entry is added and nothing is raised.
\<close>

theorem updateServerStatus_unknown_name:
  "serverName \<notin> mcpName ` set (mcps state) \<Longrightarrow>
   updateServerStatus state serverName isOnline ep = state"
proof -
  assume a: "serverName \<notin> mcpName ` set (mcps state)"
  have "map (\<lambda>mcp. if mcpName mcp = serverName then f mcp else mcp) (mcps state) = mcps state"
    for f
    using a by (intro map_idI) auto
  then show ?thesis
    by (simp add: updateServerStatus_def)
qed

theorem updateServerStatus_unknown_name_witness:
  "''svcio'' \<notin> mcpName ` set (mcps exampleState) \<and>
   updateServerStatus exampleState ''svcio'' False (Some ''command:docker:img'') = exampleState"
proof -
  have h: "''svcio'' \<notin> mcpName ` set (mcps exampleState)"
    by (simp add: exampleState_def)
  show ?thesis
    using h updateServerStatus_unknown_name [OF h] by blast
qed

section \<open>Loading the state file: \<open>loadState\<close>\<close>

text \<open>
  Claim C8. \<open>loadState\<close> always returns and never raises. When the state file is
  missing, when its contents do not parse as JSON, and when the file system rejects the
  read, it returns the empty state file whose \<open>updatedOn\<close> is the current time; a file
  that parses is returned as it is, be it a state file or any other JSON document.
\<close>

theorem loadState_never_raises:
  "(\<exists>state. loadState w = Inr state) \<and>
   (stateDisk w = NoFile \<or> stateDisk w = Corrupt \<or> stateDisk w = Unavailable \<longrightarrow>
      loadState w = Inr (State \<lparr> mcps = [], updatedOn = Some (now w) \<rparr>)) \<and>
   (\<forall>state. stateDisk w = Stored state \<longrightarrow> loadState w = Inr (State state)) \<and>
   (\<forall>document. stateDisk w = Foreign document \<longrightarrow> loadState w = Inr (Other document))"
  by (cases "stateDisk w") (simp_all add: loadState_def loadStateTry_def emptyState_def)

theorem loadState_never_raises_witness:
  "stateDisk (exampleWorld\<lparr> stateDisk := Corrupt \<rparr>) = Corrupt \<and>
   loadState (exampleWorld\<lparr> stateDisk := Corrupt \<rparr>) =
     Inr (State \<lparr> mcps = [], updatedOn = Some ''2025-06-01T12:00:00.000Z'' \<rparr>) \<and>
   loadState (exampleWorld\<lparr> stateDisk := NoFile \<rparr>) =
     Inr (State \<lparr> mcps = [], updatedOn = Some ''2025-06-01T12:00:00.000Z'' \<rparr>) \<and>
   loadState exampleWorld = Inr (State onlineState) \<and>
   loadState emptyObjectWorld = Inr (Other (JObj []))"
  using loadState_never_raises [of "exampleWorld\<lparr> stateDisk := Corrupt \<rparr>"]
    loadState_never_raises [of "exampleWorld\<lparr> stateDisk := NoFile \<rparr>"]
    loadState_never_raises [of exampleWorld]
    loadState_never_raises [of emptyObjectWorld]
  by (simp add: exampleWorld_def emptyObjectWorld_def)

section \<open>Validating a stdio server: \<open>validateStdioServer\<close>\<close>

lemma loadState_total:
  "loadState w = Inr (case loadState w of Inr state \<Rightarrow> state | Inl e \<Rightarrow> State (emptyState w))"
  by (simp add: loadState_def split: sum.splits)





lemma map_of_mapped:
  "map_of (map (\<lambda>p. (fst p, f (snd p))) ps) k = map_option f (map_of ps k)"
  by (induction ps) auto














section \<open>Health check without a validator\<close>

text \<open>
  Claim C2, as the code has it. For a server without \<open>healthValidator\<close>,
  \<open>validateServerHealth\<close> returns true whatever Docker and the network do.
  \<open>healthCheck\<close> returns true for such a server exactly when the server is a stdio
  server or \<open>isContainerRunning\<close> finds a running container of its name: for an http
  server \<open>healthCheck\<close> first verifies that the container is running, and returns
  false when it is not.
\<close>

theorem healthCheck_without_validator:
  "healthValidator server = None \<Longrightarrow>
   validateServerHealth server w = True \<and>
   fst (healthCheck docker server w s) =
     (type server = stdio \<or> fst (isContainerRunning docker (name server) s))"
  by (cases "type server")
     (auto simp: validateServerHealth_def healthCheck_def split: prod.splits)

theorem healthCheck_without_validator_witness:
  "healthValidator svc = None \<and>
   validateServerHealth svc exampleWorld = True \<and>
   fst (healthCheck svcRunning svc exampleWorld freshDockerd) = True"
proof -
  have h: "healthValidator svc = None" and n: "name svc = ''svc''"
    by (simp_all add: svc_def)
  show ?thesis
    using h healthCheck_without_validator [OF h, of exampleWorld svcRunning freshDockerd]
    by (simp add: n running_svc)
qed

text \<open>
  Claim C2 as stated fails for an http server without a validator whose container is not
  running: \<open>healthCheck\<close> reports it unhealthy.
\<close>

theorem healthCheck_without_validator_counterexample:
  "healthValidator svc = None \<and>
   fst (isContainerRunning noContainers (name svc) freshDockerd) = False \<and>
   fst (healthCheck noContainers svc exampleWorld freshDockerd) = False"
proof -
  have h: "healthValidator svc = None" and n: "name svc = ''svc''" and t: "type svc = http"
    by (simp_all add: svc_def)
  have "fst (healthCheck noContainers svc exampleWorld freshDockerd) = False"
    by (simp add: healthCheck_def t n split: prod.splits) (use not_running_svc in auto)
  then show ?thesis
    using h not_running_svc by (simp add: n)
qed

section \<open>Stopping a container that is not there: \<open>stopAndRemoveContainer\<close>\<close>










section \<open>Adding servers to the IDE configuration: \<open>addMcpServers\<close>\<close>

lemma printed_exact: "exactNumbers j \<Longrightarrow> printed rt j = j"
  by (induction j) (auto simp: list_all_iff intro!: map_idI)

lemma map_of_insertIndexed:
  "map_of ps k = None \<Longrightarrow> map_of (insertIndexed i k v ps) = (map_of ps)(k \<mapsto> v)"
proof (induction ps)
  case Nil
  then show ?case by simp
next
  case (Cons p ps)
  then have "fst p \<noteq> k" and "map_of ps k = None"
    by (auto split: if_splits)
  then show ?case
    using Cons.IH by (auto simp: fun_upd_twist)
qed

lemma map_of_putProp: "map_of (putProp k v ps) = (map_of ps)(k \<mapsto> v)"
  by (simp add: putProp_def map_of_insertIndexed update_conv' split: option.splits)

lemma assignServers_object:
  "\<exists>es'. assignServers (JObj es) servers = Inr (JObj es') \<and>
         (\<forall>k. map_of es' k =
                (if k = ''__proto__'' \<and> map_of es k = None then None
                 else case map_of (rev servers) k of
                        Some c \<Rightarrow> Some c | None \<Rightarrow> map_of es k))"
proof (induction servers arbitrary: es)
  case Nil
  then show ?case by simp
next
  case (Cons entry rest)
  obtain n c where entry: "entry = (n, c)"
    by (cases entry)
  show ?case
  proof (cases "n = ''__proto__'' \<and> map_of es n = None")
    case True
    from Cons.IH [of es] obtain es' where
      a: "assignServers (JObj es) rest = Inr (JObj es')" and
      m: "\<forall>k. map_of es' k =
             (if k = ''__proto__'' \<and> map_of es k = None then None
              else case map_of (rev rest) k of Some c' \<Rightarrow> Some c' | None \<Rightarrow> map_of es k)"
      by blast
    have "\<forall>k. map_of es' k =
            (if k = ''__proto__'' \<and> map_of es k = None then None
             else case map_of (rev (entry # rest)) k of
                    Some c' \<Rightarrow> Some c' | None \<Rightarrow> map_of es k)"
      using m True by (auto simp: entry map_add_def split: option.splits)
    moreover have "setProp (JObj es) n c = Inr (JObj es)"
      using True by auto
    ultimately show ?thesis
      using a by (simp add: entry del: setProp.simps)
  next
    case False
    from Cons.IH [of "putProp n c es"] obtain es' where
      a: "assignServers (JObj (putProp n c es)) rest = Inr (JObj es')" and
      m: "\<forall>k. map_of es' k =
             (if k = ''__proto__'' \<and> map_of (putProp n c es) k = None then None
              else case map_of (rev rest) k of Some c' \<Rightarrow> Some c'
                   | None \<Rightarrow> map_of (putProp n c es) k)"
      by blast
    have "\<forall>k. map_of es' k =
            (if k = ''__proto__'' \<and> map_of es k = None then None
             else case map_of (rev (entry # rest)) k of
                    Some c' \<Rightarrow> Some c' | None \<Rightarrow> map_of es k)"
    proof
      fix k
      show "map_of es' k =
            (if k = ''__proto__'' \<and> map_of es k = None then None
             else case map_of (rev (entry # rest)) k of
                    Some c' \<Rightarrow> Some c' | None \<Rightarrow> map_of es k)"
        using spec [OF m, of k] False
        by (cases "k = n") (auto simp: entry map_of_putProp map_add_def split: option.splits)
    qed
    moreover have "setProp (JObj es) n c = Inr (JObj (putProp n c es))"
      using False by auto
    ultimately show ?thesis
      using a by (simp add: entry del: setProp.simps)
  qed
qed

lemma writeMcpConfigFile_others:
  "q \<noteq> p \<Longrightarrow> cursorDisk (snd (writeMcpConfigFile p config w)) q = cursorDisk w q"
  by (simp add: writeMcpConfigFile_def)

lemma writeMcpConfigFile_state:
  "stateDisk (snd (writeMcpConfigFile p config w)) = stateDisk w"
  by (simp add: writeMcpConfigFile_def)

lemma writeMcpConfigFile_failed:
  "\<not> fst (writeMcpConfigFile p config w) \<Longrightarrow> snd (writeMcpConfigFile p config w) = w"
  by (simp add: writeMcpConfigFile_def split: if_splits)

lemma addMcpServers_others:
  "q \<noteq> p \<Longrightarrow> cursorDisk (snd (addMcpServers p servers w)) q = cursorDisk w q"
  by (simp add: addMcpServers_def Let_def writeMcpConfigFile_others
        split: json.splits sum.splits)

lemma addMcpServers_state:
  "stateDisk (snd (addMcpServers p servers w)) = stateDisk w"
  by (simp add: addMcpServers_def Let_def writeMcpConfigFile_state
        split: json.splits sum.splits)

lemma addMcpServers_failed:
  "\<not> fst (addMcpServers p servers w) \<Longrightarrow> snd (addMcpServers p servers w) = w"
  by (simp add: addMcpServers_def Let_def writeMcpConfigFile_failed
        split: json.splits sum.splits)

text \<open>
  What \<open>addMcpServers\<close> writes when it reads an object whose \<open>mcpServers\<close> is an object,
  or is absent or falsy.
\<close>

lemma addMcpServers_object:
  assumes doc: "readMcpConfigFile p w = JObj ps"
      and cur: "case map_of ps ''mcpServers'' of
                  None \<Rightarrow> es = []
                | Some v \<Rightarrow> if truthy v then v = JObj es else es = []"
      and wr: "cursorWritable w p"
  shows "fst (addMcpServers p servers w) \<and>
         (\<exists>qs ms.
            cursorDisk (snd (addMcpServers p servers w)) p = Document (JObj qs) \<and>
            (\<forall>k. k \<noteq> ''mcpServers'' \<longrightarrow>
                 map_of qs k = map_option (printed w) (map_of ps k)) \<and>
            map_of qs ''mcpServers'' = Some (JObj ms) \<and>
            getMcpServers p (snd (addMcpServers p servers w)) = JObj ms \<and>
            (\<forall>k. map_of ms k =
                   map_option (printed w)
                     (if k = ''__proto__'' \<and> map_of es k = None then None
                      else case map_of (rev servers) k of
                             Some c \<Rightarrow> Some c | None \<Rightarrow> map_of es k)))"
proof -
  have init: "(case map_of ps ''mcpServers'' of
                 None \<Rightarrow> JObj []
               | Some v \<Rightarrow> if truthy v then v else JObj []) = JObj es"
    using cur by (auto split: option.splits if_splits)
  obtain es' where
    a: "assignServers (JObj es) servers = Inr (JObj es')" and
    m: "\<forall>k. map_of es' k =
           (if k = ''__proto__'' \<and> map_of es k = None then None
            else case map_of (rev servers) k of Some c \<Rightarrow> Some c | None \<Rightarrow> map_of es k)"
    using assignServers_object by blast
  define qs where
    "qs = map (\<lambda>p. (fst p, printed w (snd p))) (AList.update ''mcpServers'' (JObj es') ps)"
  define ms where "ms = map (\<lambda>p. (fst p, printed w (snd p))) es'"
  have run: "addMcpServers p servers w =
               (True, w\<lparr> cursorDisk := (cursorDisk w)(p := Document (JObj qs)) \<rparr>)"
    using wr by (simp add: addMcpServers_def doc init a writeMcpConfigFile_def qs_def)
  have disk: "cursorDisk (snd (addMcpServers p servers w)) p = Document (JObj qs)"
    by (simp add: run)
  have others: "\<forall>k. k \<noteq> ''mcpServers'' \<longrightarrow>
                  map_of qs k = map_option (printed w) (map_of ps k)"
    by (simp add: qs_def map_of_mapped update_conv')
  have servers: "map_of qs ''mcpServers'' = Some (JObj ms)"
    by (simp add: qs_def ms_def map_of_mapped update_conv')
  have reread: "getMcpServers p (snd (addMcpServers p servers w)) = JObj ms"
    by (simp add: getMcpServers_def readMcpConfigFile_def disk servers)
  have merged: "\<forall>k. map_of ms k =
                   map_option (printed w)
                     (if k = ''__proto__'' \<and> map_of es k = None then None
                      else case map_of (rev servers) k of
                             Some c \<Rightarrow> Some c | None \<Rightarrow> map_of es k)"
    using m by (simp add: ms_def map_of_mapped)
  have "\<exists>qs ms.
            cursorDisk (snd (addMcpServers p servers w)) p = Document (JObj qs) \<and>
            (\<forall>k. k \<noteq> ''mcpServers'' \<longrightarrow>
                 map_of qs k = map_option (printed w) (map_of ps k)) \<and>
            map_of qs ''mcpServers'' = Some (JObj ms) \<and>
            getMcpServers p (snd (addMcpServers p servers w)) = JObj ms \<and>
            (\<forall>k. map_of ms k =
                   map_option (printed w)
                     (if k = ''__proto__'' \<and> map_of es k = None then None
                      else case map_of (rev servers) k of
                             Some c \<Rightarrow> Some c | None \<Rightarrow> map_of es k))"
    using disk others servers reread merged
    by (intro exI [of _ qs] exI [of _ ms] conjI)
  moreover have "fst (addMcpServers p servers w)"
    by (simp add: run)
  ultimately show ?thesis
    by (intro conjI)
qed

text \<open>
  What a successful \<open>addMcpServers\<close> leaves of a document of any shape: under every
  name but \<open>mcpServers\<close>, what was there, as \<open>JSON.stringify\<close> prints it.
\<close>

lemma addMcpServers_frame:
  assumes doc: "cursorDisk w p = Document d" and ok: "fst (addMcpServers p servers w)"
  shows "\<exists>d'. cursorDisk (snd (addMcpServers p servers w)) p = Document d' \<and>
              (\<forall>k. k \<noteq> ''mcpServers'' \<longrightarrow>
                   getProp d' k =
                     (case getProp d k of
                        Inl e \<Rightarrow> Inl e
                      | Inr v \<Rightarrow> Inr (map_option (printed w) v)))"
proof (cases d)
  case (JObj ps)
  have r: "readMcpConfigFile p w = JObj ps"
    by (simp add: readMcpConfigFile_def doc JObj)
  define initialised where
    "initialised = (case map_of ps ''mcpServers'' of
                      None \<Rightarrow> JObj []
                    | Some v \<Rightarrow> if truthy v then v else JObj [])"
  obtain m where a: "assignServers initialised servers = Inr m"
    using ok by (cases "assignServers initialised servers")
                (simp_all add: addMcpServers_def r initialised_def)
  have wr: "cursorWritable w p"
    using ok by (simp add: addMcpServers_def r a [unfolded initialised_def]
                   writeMcpConfigFile_def split: if_splits)
  have disk: "cursorDisk (snd (addMcpServers p servers w)) p =
                Document (printed w (JObj (AList.update ''mcpServers'' m ps)))"
    using wr by (simp add: addMcpServers_def r a [unfolded initialised_def]
                   writeMcpConfigFile_def)
  have "\<forall>k. k \<noteq> ''mcpServers'' \<longrightarrow>
          getProp (printed w (JObj (AList.update ''mcpServers'' m ps))) k =
            (case getProp d k of
               Inl e \<Rightarrow> Inl e
             | Inr v \<Rightarrow> Inr (map_option (printed w) v))"
    by (simp add: JObj map_of_mapped update_conv')
  then show ?thesis
    using disk by blast
next
  case (JArr xs)
  have r: "readMcpConfigFile p w = JArr xs"
    by (simp add: readMcpConfigFile_def doc JArr)
  have wr: "cursorWritable w p"
    using ok by (simp add: addMcpServers_def r writeMcpConfigFile_def split: if_splits)
  have disk: "cursorDisk (snd (addMcpServers p servers w)) p =
                Document (printed w (JArr xs))"
    using wr by (simp add: addMcpServers_def r writeMcpConfigFile_def)
  have "\<forall>k. getProp (printed w (JArr xs)) k =
            (case getProp d k of
               Inl e \<Rightarrow> Inl e
             | Inr v \<Rightarrow> Inr (map_option (printed w) v))"
    by (simp add: JArr split: option.splits)
  then show ?thesis
    using disk by blast
next
  case JNull
  then show ?thesis
    using ok by (simp add: addMcpServers_def readMcpConfigFile_def doc)
next
  case (JBool b)
  then show ?thesis
    using ok by (simp add: addMcpServers_def readMcpConfigFile_def doc)
next
  case (JNum v)
  then show ?thesis
    using ok by (simp add: addMcpServers_def readMcpConfigFile_def doc)
next
  case (JStr t)
  then show ?thesis
    using ok by (simp add: addMcpServers_def readMcpConfigFile_def doc)
qed

text \<open>
  Claim C5, as the code has it. \<open>addMcpServers\<close> leaves the files at other paths
  alone, and when it returns false it has written nothing; it returns false when the
  file cannot be written. When it returns true on a file that holds a JSON document,
  the file holds a document again that has, under every top-level name but
  \<open>mcpServers\<close>, what the former document had there, as \<open>JSON.stringify\<close> prints it.
  When the file holds an object whose \<open>mcpServers\<close> is an
  object, or is absent or falsy, and the file can be written, \<open>addMcpServers\<close> returns
  true and the file holds an object again, in which every top-level key other than
  \<open>mcpServers\<close> is present exactly when it was before, with its value as
  \<open>JSON.stringify\<close> prints it: unchanged when all its numbers are integers that a
  double holds. \<open>mcpServers\<close> is then the object that \<open>getMcpServers\<close> reads back:
  the former entries with the given ones put over them, a later entry of the same name
  winning, each as \<open>JSON.stringify\<close> prints it; an entry given under the name
  \<open>__proto__\<close> is dropped unless the former object has an own property of that name.
  A file that is missing, cannot be read or does not parse is replaced by an object that
  holds \<open>mcpServers\<close> with the given entries and nothing else.
\<close>

theorem addMcpServers_object_roundtrip:
  "(\<forall>q. q \<noteq> p \<longrightarrow> cursorDisk (snd (addMcpServers p servers w)) q = cursorDisk w q) \<and>
   (\<not> fst (addMcpServers p servers w) \<longrightarrow> snd (addMcpServers p servers w) = w) \<and>
   (\<not> cursorWritable w p \<longrightarrow> \<not> fst (addMcpServers p servers w)) \<and>
   (\<forall>d. cursorDisk w p = Document d \<and> fst (addMcpServers p servers w) \<longrightarrow>
      (\<exists>d'. cursorDisk (snd (addMcpServers p servers w)) p = Document d' \<and>
             (\<forall>k. k \<noteq> ''mcpServers'' \<longrightarrow>
                  getProp d' k =
                    (case getProp d k of
                       Inl e \<Rightarrow> Inl e
                     | Inr v \<Rightarrow> Inr (map_option (printed w) v))))) \<and>
   (\<forall>ps es.
      cursorDisk w p = Document (JObj ps) \<and>
      (case map_of ps ''mcpServers'' of
         None \<Rightarrow> es = []
       | Some v \<Rightarrow> if truthy v then v = JObj es else es = []) \<and>
      cursorWritable w p \<longrightarrow>
      fst (addMcpServers p servers w) \<and>
      (\<exists>qs ms.
         cursorDisk (snd (addMcpServers p servers w)) p = Document (JObj qs) \<and>
         (\<forall>k. k \<noteq> ''mcpServers'' \<longrightarrow>
              map_of qs k = map_option (printed w) (map_of ps k)) \<and>
         (\<forall>k v. k \<noteq> ''mcpServers'' \<and> map_of ps k = Some v \<and> exactNumbers v \<longrightarrow>
              map_of qs k = Some v) \<and>
         map_of qs ''mcpServers'' = Some (JObj ms) \<and>
         getMcpServers p (snd (addMcpServers p servers w)) = JObj ms \<and>
         (\<forall>k. map_of ms k =
                map_option (printed w)
                  (if k = ''__proto__'' \<and> map_of es k = None then None
                   else case map_of (rev servers) k of
                          Some c \<Rightarrow> Some c | None \<Rightarrow> map_of es k)))) \<and>
   ((cursorDisk w p = Missing \<or> cursorDisk w p = Unreadable \<or> cursorDisk w p = Garbled) \<and>
    cursorWritable w p \<longrightarrow>
      fst (addMcpServers p servers w) \<and>
      (\<exists>qs ms.
         cursorDisk (snd (addMcpServers p servers w)) p = Document (JObj qs) \<and>
         (\<forall>k. k \<noteq> ''mcpServers'' \<longrightarrow> map_of qs k = None) \<and>
         map_of qs ''mcpServers'' = Some (JObj ms) \<and>
         (\<forall>k. map_of ms k =
                map_option (printed w)
                  (if k = ''__proto__'' then None else map_of (rev servers) k))))"
  (is "?others \<and> ?failed \<and> ?locked \<and> ?frame \<and> ?object \<and> ?replaced")
proof -
  have others: ?others
    using addMcpServers_others [of _ p servers w] by blast
  have failed: ?failed
    using addMcpServers_failed [of p servers w] by blast
  have locked: ?locked
    by (simp add: addMcpServers_def Let_def writeMcpConfigFile_def
          split: json.splits sum.splits)
  have frame: ?frame
    using addMcpServers_frame [of w p _ servers] by blast
  have object: ?object
  proof (intro allI impI)
    fix ps es
    assume a: "cursorDisk w p = Document (JObj ps) \<and>
      (case map_of ps ''mcpServers'' of
         None \<Rightarrow> es = []
       | Some v \<Rightarrow> if truthy v then v = JObj es else es = []) \<and>
      cursorWritable w p"
    then have doc: "readMcpConfigFile p w = JObj ps"
      and cur: "case map_of ps ''mcpServers'' of
                  None \<Rightarrow> es = []
                | Some v \<Rightarrow> if truthy v then v = JObj es else es = []"
      and wr: "cursorWritable w p"
      by (simp_all add: readMcpConfigFile_def)
    from addMcpServers_object [OF doc cur wr, of servers]
    obtain qs ms where
      ok: "fst (addMcpServers p servers w)" and
      disk: "cursorDisk (snd (addMcpServers p servers w)) p = Document (JObj qs)" and
      kept: "\<forall>k. k \<noteq> ''mcpServers'' \<longrightarrow>
                map_of qs k = map_option (printed w) (map_of ps k)" and
      servers: "map_of qs ''mcpServers'' = Some (JObj ms)" and
      reread: "getMcpServers p (snd (addMcpServers p servers w)) = JObj ms" and
      merged: "\<forall>k. map_of ms k =
                map_option (printed w)
                  (if k = ''__proto__'' \<and> map_of es k = None then None
                   else case map_of (rev servers) k of
                          Some c \<Rightarrow> Some c | None \<Rightarrow> map_of es k)"
      by blast
    have exact: "\<forall>k v. k \<noteq> ''mcpServers'' \<and> map_of ps k = Some v \<and> exactNumbers v \<longrightarrow>
              map_of qs k = Some v"
      using kept by (simp add: printed_exact)
    have "\<exists>qs ms.
         cursorDisk (snd (addMcpServers p servers w)) p = Document (JObj qs) \<and>
         (\<forall>k. k \<noteq> ''mcpServers'' \<longrightarrow>
              map_of qs k = map_option (printed w) (map_of ps k)) \<and>
         (\<forall>k v. k \<noteq> ''mcpServers'' \<and> map_of ps k = Some v \<and> exactNumbers v \<longrightarrow>
              map_of qs k = Some v) \<and>
         map_of qs ''mcpServers'' = Some (JObj ms) \<and>
         getMcpServers p (snd (addMcpServers p servers w)) = JObj ms \<and>
         (\<forall>k. map_of ms k =
                map_option (printed w)
                  (if k = ''__proto__'' \<and> map_of es k = None then None
                   else case map_of (rev servers) k of
                          Some c \<Rightarrow> Some c | None \<Rightarrow> map_of es k))"
      using disk kept exact servers reread merged
      by (intro exI [of _ qs] exI [of _ ms] conjI)
    with ok show "fst (addMcpServers p servers w) \<and>
      (\<exists>qs ms.
         cursorDisk (snd (addMcpServers p servers w)) p = Document (JObj qs) \<and>
         (\<forall>k. k \<noteq> ''mcpServers'' \<longrightarrow>
              map_of qs k = map_option (printed w) (map_of ps k)) \<and>
         (\<forall>k v. k \<noteq> ''mcpServers'' \<and> map_of ps k = Some v \<and> exactNumbers v \<longrightarrow>
              map_of qs k = Some v) \<and>
         map_of qs ''mcpServers'' = Some (JObj ms) \<and>
         getMcpServers p (snd (addMcpServers p servers w)) = JObj ms \<and>
         (\<forall>k. map_of ms k =
                map_option (printed w)
                  (if k = ''__proto__'' \<and> map_of es k = None then None
                   else case map_of (rev servers) k of
                          Some c \<Rightarrow> Some c | None \<Rightarrow> map_of es k)))"
      by (intro conjI)
  qed
  have replaced: ?replaced
  proof (intro impI)
    assume a: "(cursorDisk w p = Missing \<or> cursorDisk w p = Unreadable \<or>
                cursorDisk w p = Garbled) \<and> cursorWritable w p"
    then have doc: "readMcpConfigFile p w = JObj []" and wr: "cursorWritable w p"
      by (auto simp: readMcpConfigFile_def)
    have cur: "case map_of [] ''mcpServers'' of
                  None \<Rightarrow> ([] :: (string \<times> json) list) = []
                | Some v \<Rightarrow> if truthy v then v = JObj [] else ([] :: (string \<times> json) list) = []"
      by simp
    from addMcpServers_object [OF doc cur wr, of servers]
    obtain qs ms where
      ok: "fst (addMcpServers p servers w)" and
      disk: "cursorDisk (snd (addMcpServers p servers w)) p = Document (JObj qs)" and
      kept': "\<forall>k. k \<noteq> ''mcpServers'' \<longrightarrow>
                 map_of qs k = map_option (printed w) (map_of [] k)" and
      servers: "map_of qs ''mcpServers'' = Some (JObj ms)" and
      merged': "\<forall>k. map_of ms k =
                map_option (printed w)
                  (if k = ''__proto__'' \<and> map_of [] k = (None :: json option) then None
                   else case map_of (rev servers) k of
                          Some c \<Rightarrow> Some c | None \<Rightarrow> map_of [] k)"
      by blast
    have kept: "\<forall>k. k \<noteq> ''mcpServers'' \<longrightarrow> map_of qs k = None"
      using kept' by simp
    have merged: "\<forall>k. map_of ms k =
                map_option (printed w)
                  (if k = ''__proto__'' then None else map_of (rev servers) k)"
    proof
      fix k
      show "map_of ms k =
              map_option (printed w)
                (if k = ''__proto__'' then None else map_of (rev servers) k)"
        using spec [OF merged', of k] by (cases "map_of (rev servers) k") simp_all
    qed
    have "\<exists>qs ms.
         cursorDisk (snd (addMcpServers p servers w)) p = Document (JObj qs) \<and>
         (\<forall>k. k \<noteq> ''mcpServers'' \<longrightarrow> map_of qs k = None) \<and>
         map_of qs ''mcpServers'' = Some (JObj ms) \<and>
         (\<forall>k. map_of ms k =
                map_option (printed w)
                  (if k = ''__proto__'' then None else map_of (rev servers) k))"
      using disk kept servers merged by (intro exI [of _ qs] exI [of _ ms] conjI)
    with ok show "fst (addMcpServers p servers w) \<and>
      (\<exists>qs ms.
         cursorDisk (snd (addMcpServers p servers w)) p = Document (JObj qs) \<and>
         (\<forall>k. k \<noteq> ''mcpServers'' \<longrightarrow> map_of qs k = None) \<and>
         map_of qs ''mcpServers'' = Some (JObj ms) \<and>
         (\<forall>k. map_of ms k =
                map_option (printed w)
                  (if k = ''__proto__'' then None else map_of (rev servers) k)))"
      by (intro conjI)
  qed
  show ?thesis
    using others failed locked frame object replaced by (intro conjI)
qed

lemma add_array:
  "addMcpServers cursorPath [(''svc'', httpEntry ''http://localhost:9500/sse'')] arrayWorld =
     (True, arrayWorld)"
proof -
  have i: "arrayIndex ''svc'' = None"
    by (simp add: arrayIndex_def digitValue_def)
  have r: "readMcpConfigFile cursorPath arrayWorld =
             JObj [(''theme'', JStr ''dark''), (''mcpServers'', JArr [])]"
    by (simp add: readMcpConfigFile_def arrayWorld_def)
  have w: "cursorWritable arrayWorld cursorPath"
    by (simp add: arrayWorld_def exampleWorld_def)
  have same: "(cursorDisk arrayWorld)
                (cursorPath :=
                   Document (JObj [(''theme'', JStr ''dark''), (''mcpServers'', JArr [])])) =
              cursorDisk arrayWorld"
    by (auto simp: arrayWorld_def)
  show ?thesis
    by (simp add: addMcpServers_def r i writeMcpConfigFile_def w same)
qed

theorem addMcpServers_object_roundtrip_witness:
  "cursorDisk exampleWorld cursorPath = Document exampleDocument \<and>
   fst (addMcpServers cursorPath [(''svc'', httpEntry ''http://localhost:9500/sse'')]
          exampleWorld) \<and>
   (\<exists>qs ms.
      cursorDisk
        (snd (addMcpServers cursorPath [(''svc'', httpEntry ''http://localhost:9500/sse'')]
                exampleWorld)) cursorPath = Document (JObj qs) \<and>
      map_of qs ''theme'' = Some (JStr ''dark'') \<and>
      map_of qs ''mcpServers'' = Some (JObj ms) \<and>
      getMcpServers cursorPath
        (snd (addMcpServers cursorPath [(''svc'', httpEntry ''http://localhost:9500/sse'')]
                exampleWorld)) = JObj ms \<and>
      map_of ms ''svc'' = Some (httpEntry ''http://localhost:9500/sse'') \<and>
      map_of ms ''other'' = Some (httpEntry ''http://localhost:7000/sse'') \<and>
      map_of ms ''absent'' = None) \<and>
   cursorDisk
     (snd (addMcpServers cursorPath [(''svc'', httpEntry ''http://localhost:9500/sse'')]
             exampleWorld)) ''/elsewhere'' = Missing \<and>
   (\<exists>d'. cursorDisk
            (snd (addMcpServers cursorPath
                    [(''svc'', httpEntry ''http://localhost:9500/sse'')] arrayWorld))
            cursorPath = Document d' \<and>
          getProp d' ''theme'' = Inr (Some (JStr ''dark''))) \<and>
   cursorDisk garbledWorld cursorPath = Garbled \<and>
   (\<exists>qs ms.
      cursorDisk
        (snd (addMcpServers cursorPath [(''svc'', httpEntry ''http://localhost:9500/sse'')]
                garbledWorld)) cursorPath = Document (JObj qs) \<and>
      map_of qs ''theme'' = None \<and>
      map_of qs ''mcpServers'' = Some (JObj ms) \<and>
      map_of ms ''svc'' = Some (httpEntry ''http://localhost:9500/sse'')) \<and>
   \<not> fst (addMcpServers cursorPath [(''svc'', httpEntry ''http://localhost:9500/sse'')]
            lockedWorld) \<and>
   snd (addMcpServers cursorPath [(''svc'', httpEntry ''http://localhost:9500/sse'')]
          lockedWorld) = lockedWorld"
proof -
  note T = addMcpServers_object_roundtrip
             [of cursorPath "[(''svc'', httpEntry ''http://localhost:9500/sse'')]" exampleWorld]
  note G = addMcpServers_object_roundtrip
             [of cursorPath "[(''svc'', httpEntry ''http://localhost:9500/sse'')]" garbledWorld]
  note L = addMcpServers_object_roundtrip
             [of cursorPath "[(''svc'', httpEntry ''http://localhost:9500/sse'')]" lockedWorld]
  have doc: "cursorDisk exampleWorld cursorPath = Document exampleDocument"
    by (simp add: exampleWorld_def)
  have wr: "cursorWritable exampleWorld cursorPath" "cursorWritable garbledWorld cursorPath"
    "\<not> cursorWritable lockedWorld cursorPath"
    by (simp_all add: exampleWorld_def garbledWorld_def lockedWorld_def)
  have pr: "printed rt (httpEntry url) = httpEntry url" for rt :: world and url
    by (simp add: httpEntry_def)
  have hyp: "cursorDisk exampleWorld cursorPath =
               Document (JObj [(''theme'', JStr ''dark''),
                               (''mcpServers'',
                                JObj [(''svc'', httpEntry ''http://localhost:9001/sse''),
                                      (''other'', httpEntry ''http://localhost:7000/sse'')])]) \<and>
      (case map_of [(''theme'', JStr ''dark''),
                    (''mcpServers'',
                     JObj [(''svc'', httpEntry ''http://localhost:9001/sse''),
                           (''other'', httpEntry ''http://localhost:7000/sse'')])]
              ''mcpServers'' of
         None \<Rightarrow> [(''svc'', httpEntry ''http://localhost:9001/sse''),
                   (''other'', httpEntry ''http://localhost:7000/sse'')] = []
       | Some v \<Rightarrow>
           if truthy v
           then v = JObj [(''svc'', httpEntry ''http://localhost:9001/sse''),
                          (''other'', httpEntry ''http://localhost:7000/sse'')]
           else [(''svc'', httpEntry ''http://localhost:9001/sse''),
                 (''other'', httpEntry ''http://localhost:7000/sse'')] = []) \<and>
      cursorWritable exampleWorld cursorPath"
    using doc wr(1) by (simp add: exampleDocument_def)
  note O = mp [OF spec [OF spec [OF conjunct1
                 [OF conjunct2 [OF conjunct2 [OF conjunct2 [OF conjunct2 [OF T]]]]]]]
                 hyp]
  have ok: "fst (addMcpServers cursorPath [(''svc'', httpEntry ''http://localhost:9500/sse'')]
          exampleWorld)"
    using conjunct1 [OF O] .
  from conjunct2 [OF O] obtain qs ms where
    disk: "cursorDisk
        (snd (addMcpServers cursorPath [(''svc'', httpEntry ''http://localhost:9500/sse'')]
                exampleWorld)) cursorPath = Document (JObj qs)" and
    exact: "\<forall>k v. k \<noteq> ''mcpServers'' \<and>
              map_of [(''theme'', JStr ''dark''),
                      (''mcpServers'',
                       JObj [(''svc'', httpEntry ''http://localhost:9001/sse''),
                             (''other'', httpEntry ''http://localhost:7000/sse'')])] k = Some v \<and>
              exactNumbers v \<longrightarrow> map_of qs k = Some v" and
    servers: "map_of qs ''mcpServers'' = Some (JObj ms)" and
    reread: "getMcpServers cursorPath
        (snd (addMcpServers cursorPath [(''svc'', httpEntry ''http://localhost:9500/sse'')]
                exampleWorld)) = JObj ms" and
    merged: "\<forall>k. map_of ms k =
                map_option (printed exampleWorld)
                  (if k = ''__proto__'' \<and>
                      map_of [(''svc'', httpEntry ''http://localhost:9001/sse''),
                              (''other'', httpEntry ''http://localhost:7000/sse'')] k = None
                   then None
                   else case map_of (rev [(''svc'', httpEntry ''http://localhost:9500/sse'')]) k of
                          Some c \<Rightarrow> Some c
                        | None \<Rightarrow>
                            map_of [(''svc'', httpEntry ''http://localhost:9001/sse''),
                                    (''other'', httpEntry ''http://localhost:7000/sse'')] k)"
    by blast
  have theme: "map_of qs ''theme'' = Some (JStr ''dark'')"
    using spec [OF spec [OF exact, of "''theme''"], of "JStr ''dark''"] by simp
  have m1: "map_of ms ''svc'' = Some (httpEntry ''http://localhost:9500/sse'')"
    using spec [OF merged, of "''svc''"] by (simp add: pr)
  have m2: "map_of ms ''other'' = Some (httpEntry ''http://localhost:7000/sse'')"
    using spec [OF merged, of "''other''"] by (simp add: pr)
  have m3: "map_of ms ''absent'' = None"
    using spec [OF merged, of "''absent''"] by simp
  have object: "\<exists>qs ms.
      cursorDisk
        (snd (addMcpServers cursorPath [(''svc'', httpEntry ''http://localhost:9500/sse'')]
                exampleWorld)) cursorPath = Document (JObj qs) \<and>
      map_of qs ''theme'' = Some (JStr ''dark'') \<and>
      map_of qs ''mcpServers'' = Some (JObj ms) \<and>
      getMcpServers cursorPath
        (snd (addMcpServers cursorPath [(''svc'', httpEntry ''http://localhost:9500/sse'')]
                exampleWorld)) = JObj ms \<and>
      map_of ms ''svc'' = Some (httpEntry ''http://localhost:9500/sse'') \<and>
      map_of ms ''other'' = Some (httpEntry ''http://localhost:7000/sse'') \<and>
      map_of ms ''absent'' = None"
    using disk theme servers reread m1 m2 m3
    by (intro exI [of _ qs] exI [of _ ms] conjI)
  have p: "''/elsewhere'' \<noteq> cursorPath"
    by (simp add: cursorPath_def)
  have elsewhere: "cursorDisk
     (snd (addMcpServers cursorPath [(''svc'', httpEntry ''http://localhost:9500/sse'')]
             exampleWorld)) ''/elsewhere'' = Missing"
    using mp [OF spec [OF conjunct1 [OF T], of "''/elsewhere''"] p] p
    by (simp add: exampleWorld_def)
  note A = addMcpServers_object_roundtrip
             [of cursorPath "[(''svc'', httpEntry ''http://localhost:9500/sse'')]" arrayWorld]
  have ahyp: "cursorDisk arrayWorld cursorPath =
                Document (JObj [(''theme'', JStr ''dark''), (''mcpServers'', JArr [])]) \<and>
              fst (addMcpServers cursorPath
                     [(''svc'', httpEntry ''http://localhost:9500/sse'')] arrayWorld)"
    by (simp add: add_array) (simp add: arrayWorld_def)
  from mp [OF spec [OF conjunct1 [OF conjunct2 [OF conjunct2 [OF conjunct2 [OF A]]]]] ahyp]
  obtain d' where
    adisk: "cursorDisk
            (snd (addMcpServers cursorPath
                    [(''svc'', httpEntry ''http://localhost:9500/sse'')] arrayWorld))
            cursorPath = Document d'" and
    akept: "\<forall>k. k \<noteq> ''mcpServers'' \<longrightarrow>
              getProp d' k =
                (case getProp (JObj [(''theme'', JStr ''dark''), (''mcpServers'', JArr [])]) k of
                   Inl e \<Rightarrow> Inl e
                 | Inr v \<Rightarrow> Inr (map_option (printed arrayWorld) v))"
    by blast
  have atheme: "getProp d' ''theme'' = Inr (Some (JStr ''dark''))"
    using spec [OF akept, of "''theme''"] by simp
  have framed: "\<exists>d'. cursorDisk
            (snd (addMcpServers cursorPath
                    [(''svc'', httpEntry ''http://localhost:9500/sse'')] arrayWorld))
            cursorPath = Document d' \<and>
          getProp d' ''theme'' = Inr (Some (JStr ''dark''))"
    using adisk atheme by (intro exI [of _ d'] conjI)
  have g: "cursorDisk garbledWorld cursorPath = Garbled"
    by (simp add: garbledWorld_def)
  have ghyp: "(cursorDisk garbledWorld cursorPath = Missing \<or>
               cursorDisk garbledWorld cursorPath = Unreadable \<or>
               cursorDisk garbledWorld cursorPath = Garbled) \<and>
              cursorWritable garbledWorld cursorPath"
    using g wr(2) by simp
  from conjunct2 [OF mp [OF conjunct2
         [OF conjunct2 [OF conjunct2 [OF conjunct2 [OF conjunct2 [OF G]]]]] ghyp]]
  obtain gs hs where
    gdisk: "cursorDisk
        (snd (addMcpServers cursorPath [(''svc'', httpEntry ''http://localhost:9500/sse'')]
                garbledWorld)) cursorPath = Document (JObj gs)" and
    gkept: "\<forall>k. k \<noteq> ''mcpServers'' \<longrightarrow> map_of gs k = None" and
    gservers: "map_of gs ''mcpServers'' = Some (JObj hs)" and
    gmerged: "\<forall>k. map_of hs k =
                map_option (printed garbledWorld)
                  (if k = ''__proto__'' then None
                   else map_of (rev [(''svc'', httpEntry ''http://localhost:9500/sse'')]) k)"
    by blast
  have g1: "map_of gs ''theme'' = None"
    using spec [OF gkept, of "''theme''"] by simp
  have g2: "map_of hs ''svc'' = Some (httpEntry ''http://localhost:9500/sse'')"
    using spec [OF gmerged, of "''svc''"] by (simp add: pr)
  have garbled: "\<exists>qs ms.
      cursorDisk
        (snd (addMcpServers cursorPath [(''svc'', httpEntry ''http://localhost:9500/sse'')]
                garbledWorld)) cursorPath = Document (JObj qs) \<and>
      map_of qs ''theme'' = None \<and>
      map_of qs ''mcpServers'' = Some (JObj ms) \<and>
      map_of ms ''svc'' = Some (httpEntry ''http://localhost:9500/sse'')"
    using gdisk g1 gservers g2 by (intro exI [of _ gs] exI [of _ hs] conjI)
  have l1: "\<not> fst (addMcpServers cursorPath
                      [(''svc'', httpEntry ''http://localhost:9500/sse'')] lockedWorld)"
    using mp [OF conjunct1 [OF conjunct2 [OF conjunct2 [OF L]]] wr(3)] .
  have l2: "snd (addMcpServers cursorPath [(''svc'', httpEntry ''http://localhost:9500/sse'')]
                   lockedWorld) = lockedWorld"
    using mp [OF conjunct1 [OF conjunct2 [OF L]] l1] .
  show ?thesis
    using doc ok object elsewhere framed g garbled l1 l2 by (intro conjI)
qed

text \<open>
  Claim C5 as stated fails for an \<open>mcpServers\<close> that is an array: the entry goes under a
  name that is no index, \<open>JSON.stringify\<close> does not print it, \<open>addMcpServers\<close> returns
  true and what is read back is the array without the entry. It also fails for a
  top-level key whose value is a number that no double holds: the value \<open>9007199254740993\<close>
  is written back as \<open>9007199254740992\<close>.
\<close>

theorem addMcpServers_array_counterexample:
  "cursorDisk arrayWorld cursorPath =
     Document (JObj [(''theme'', JStr ''dark''), (''mcpServers'', JArr [])]) \<and>
   fst (addMcpServers cursorPath [(''svc'', httpEntry ''http://localhost:9500/sse'')]
          arrayWorld) = True \<and>
   getMcpServers cursorPath
     (snd (addMcpServers cursorPath [(''svc'', httpEntry ''http://localhost:9500/sse'')]
             arrayWorld)) = JArr [] \<and>
   cursorDisk bigWorld cursorPath = Document (JObj [(''limit'', JNum 9007199254740993)]) \<and>
   fst (addMcpServers cursorPath [(''svc'', httpEntry ''http://localhost:9500/sse'')]
          bigWorld) = True \<and>
   cursorDisk
     (snd (addMcpServers cursorPath [(''svc'', httpEntry ''http://localhost:9500/sse'')]
             bigWorld)) cursorPath =
     Document (JObj [(''limit'', JNum 9007199254740992),
                     (''mcpServers'',
                      JObj [(''svc'', httpEntry ''http://localhost:9500/sse'')])])"
proof -
  have d: "cursorDisk arrayWorld cursorPath =
     Document (JObj [(''theme'', JStr ''dark''), (''mcpServers'', JArr [])])"
    by (simp add: arrayWorld_def)
  have w: "cursorWritable arrayWorld cursorPath" "cursorWritable bigWorld cursorPath"
    by (simp_all add: arrayWorld_def bigWorld_def exampleWorld_def)
  have a1: "fst (addMcpServers cursorPath [(''svc'', httpEntry ''http://localhost:9500/sse'')]
          arrayWorld) = True"
    by (simp add: add_array)
  have a2: "getMcpServers cursorPath
     (snd (addMcpServers cursorPath [(''svc'', httpEntry ''http://localhost:9500/sse'')]
             arrayWorld)) = JArr []"
    by (simp add: add_array getMcpServers_def readMcpConfigFile_def d)
  have bd: "cursorDisk bigWorld cursorPath =
              Document (JObj [(''limit'', JNum 9007199254740993)])"
    by (simp add: bigWorld_def)
  have br: "readMcpConfigFile cursorPath bigWorld = JObj [(''limit'', JNum 9007199254740993)]"
    by (simp add: readMcpConfigFile_def bd)
  have rp: "reprinted bigWorld 9007199254740993 = JNum 9007199254740992"
    by (simp add: bigWorld_def exampleWorld_def)
  have ns: "\<not> safeInteger 9007199254740993"
    by (simp add: safeInteger_def)
  have i: "arrayIndex ''svc'' = None"
    by (simp add: arrayIndex_def digitValue_def)
  have b: "addMcpServers cursorPath [(''svc'', httpEntry ''http://localhost:9500/sse'')]
             bigWorld =
           writeMcpConfigFile cursorPath
             (JObj [(''limit'', JNum 9007199254740993),
                    (''mcpServers'',
                     JObj [(''svc'', httpEntry ''http://localhost:9500/sse'')])]) bigWorld"
    by (simp add: addMcpServers_def br putProp_def i)
  have b1: "fst (addMcpServers cursorPath [(''svc'', httpEntry ''http://localhost:9500/sse'')]
          bigWorld) = True"
    by (simp add: b writeMcpConfigFile_def w)
  have b2: "cursorDisk
     (snd (addMcpServers cursorPath [(''svc'', httpEntry ''http://localhost:9500/sse'')]
             bigWorld)) cursorPath =
     Document (JObj [(''limit'', JNum 9007199254740992),
                     (''mcpServers'',
                      JObj [(''svc'', httpEntry ''http://localhost:9500/sse'')])])"
    unfolding b by (simp add: writeMcpConfigFile_def w ns rp httpEntry_def)
  show ?thesis
    using d a1 a2 bd b1 b2 by (intro conjI)
qed

section \<open>Updating the IDE configuration for a server: \<open>updateCursorConfigForServer\<close>\<close>

lemma updateCursorConfigForServer_state:
  "stateDisk (snd (updateCursorConfigForServer server forceUpdate w)) = stateDisk w"
  by (simp add: updateCursorConfigForServer_def Let_def addMcpServers_state
        split: sum.splits option.splits)

lemma add_example:
  "addMcpServers cursorPath [(''svc'', httpEntry ''http://localhost:9500/sse'')] exampleWorld =
     (True,
      exampleWorld\<lparr> cursorDisk :=
        (cursorDisk exampleWorld)
          (cursorPath :=
             Document
               (JObj [(''theme'', JStr ''dark''),
                      (''mcpServers'',
                       JObj [(''svc'', httpEntry ''http://localhost:9500/sse''),
                             (''other'', httpEntry ''http://localhost:7000/sse'')])])) \<rparr>)"
proof -
  have w: "cursorWritable exampleWorld cursorPath"
    by (simp add: exampleWorld_def)
  have i: "arrayIndex ''svc'' = None"
    by (simp add: arrayIndex_def digitValue_def)
  show ?thesis
    by (simp add: addMcpServers_def read_example)
       (simp add: exampleDocument_def writeMcpConfigFile_def w httpEntry_def putProp_def i)
qed

lemma run_example:
  "updateCursorConfigForServer svc False exampleWorld =
     addMcpServers cursorPath [(''svc'', httpEntry ''http://localhost:9500/sse'')] exampleWorld"
proof -
  have n: "name svc = ''svc''"
    by (simp add: svc_def)
  have p: "cursorPath \<noteq> []"
    by (simp add: cursorPath_def)
  have c: "confirm exampleWorld q" for q
    by (simp add: exampleWorld_def)
  have d: "printed exampleWorld (httpEntry ''http://localhost:9001/sse'')
             \<noteq> httpEntry ''http://localhost:9500/sse''"
    by (simp add: httpEntry_def)
  show ?thesis
    by (simp add: updateCursorConfigForServer_def config_example p transform_example
          servers_example n c d)
qed

text \<open>
  Claim C3, evaluated. The state file holds an entry for \<open>svc\<close> whose
  \<open>manageCursorConfig\<close> is unset, the IDE configuration holds another URL for \<open>svc\<close>
  than the one computed from the state, and the user answers yes. Then
  \<open>updateCursorConfigForServer\<close> without force returns true and the IDE configuration
  holds the computed entry, but the state file is what it was: the consent is not
  recorded, and the file differs from the one that saving
  \<open>updateServerCursorConfigPreference\<close> with \<open>true\<close> would leave.
\<close>

theorem updateCursorConfigForServer_consent_not_recorded:
  "getProp (getMcpServers cursorPath exampleWorld) ''svc''
     = Inr (Some (httpEntry ''http://localhost:9001/sse'')) \<and>
   transformServerConfigForCursor svc exampleWorld = httpEntry ''http://localhost:9500/sse'' \<and>
   fst (updateCursorConfigForServer svc False exampleWorld) = True \<and>
   getProp (getMcpServers cursorPath (snd (updateCursorConfigForServer svc False exampleWorld)))
       ''svc''
     = Inr (Some (httpEntry ''http://localhost:9500/sse'')) \<and>
   getServerState onlineState ''svc'' =
     Some \<lparr> mcpName = ''svc'', endpoint = ''http://localhost:9500/sse'',
            envFile = Some ''/ws/servers/config/svc.env'', online = True,
            manageCursorConfig = None \<rparr> \<and>
   stateDisk exampleWorld = Stored onlineState \<and>
   stateDisk (snd (updateCursorConfigForServer svc False exampleWorld)) = Stored onlineState \<and>
   stateDisk (snd (updateCursorConfigForServer svc False exampleWorld)) \<noteq>
     stateDisk (saveState (updateServerCursorConfigPreference exampleWorld onlineState ''svc'' True)
                  exampleWorld)"
proof -
  have before: "getProp (getMcpServers cursorPath exampleWorld) ''svc''
     = Inr (Some (httpEntry ''http://localhost:9001/sse''))"
    by (simp add: servers_example)
  have ok: "fst (updateCursorConfigForServer svc False exampleWorld) = True"
    by (simp add: run_example add_example)
  have after: "getProp (getMcpServers cursorPath
                  (snd (updateCursorConfigForServer svc False exampleWorld))) ''svc''
     = Inr (Some (httpEntry ''http://localhost:9500/sse''))"
    by (simp add: run_example add_example getMcpServers_def readMcpConfigFile_def)
  have disk: "stateDisk exampleWorld = Stored onlineState"
    by (simp add: exampleWorld_def)
  have same: "stateDisk (snd (updateCursorConfigForServer svc False exampleWorld))
                = Stored onlineState"
    by (simp add: updateCursorConfigForServer_state disk)
  have "stateDisk (saveState (updateServerCursorConfigPreference exampleWorld
                                          onlineState ''svc'' True) exampleWorld)
                    \<noteq> Stored onlineState"
    by (simp add: saveState_def updateServerCursorConfigPreference_def exampleWorld_def
          onlineState_def)
  then have recorded:
    "stateDisk (snd (updateCursorConfigForServer svc False exampleWorld)) \<noteq>
     stateDisk (saveState (updateServerCursorConfigPreference exampleWorld onlineState
                             ''svc'' True) exampleWorld)"
    by (simp add: same)
  show ?thesis
    using before transform_example ok after svc_state disk same recorded
    by (intro conjI)
qed

end
